theory Spec2Isabelle
  imports Main "HOL-Library.Word"
begin

section \<open>Data model of the per-object request engine (librbd/AioRequest.cc)\<close>

text \<open>
  The file defines three classes: AioRequest, the common part of a request on one backing
  object; AioRead and AbstractWrite, its two state machines; and one method of AioWrite.
  A method becomes a function on a world: the image context, the request (\<open>self\<close>) and
  the trace of what the request has done to its collaborators so far. A method that can
  fail an assertion returns an option, \<open>None\<close> being the abort of the process. The C++
  \<open>int\<close> result codes are integers (no arithmetic is done on them), \<open>uint64_t\<close> and
  \<open>uint8_t\<close> are machine words.
\<close>

type_synonym uint64 = "64 word"
type_synonym uint8 = "8 word"
type_synonym snap_t = "64 word"
type_synonym extent = "uint64 \<times> uint64"
type_synonym bufferlist = "uint8 list"

text \<open>Two constants of the headers the file includes: errno's ENOENT and the snapshot id
  that stands for the writable head of the image.\<close>

definition ENOENT :: int where
  "ENOENT = 2"

definition CEPH_NOSNAP :: snap_t where
  "CEPH_NOSNAP = - 2"

text \<open>Modelled from the spec: the ObjectMap cell states. Section 2 of the specification
  names NONEXISTENT, EXISTS and PENDING as distinct states of a cell; their declaration
  is not part of AioRequest.cc.\<close>

definition OBJECT_NONEXISTENT :: uint8 where
  "OBJECT_NONEXISTENT = 0"

definition OBJECT_EXISTS :: uint8 where
  "OBJECT_EXISTS = 1"

definition OBJECT_PENDING :: uint8 where
  "OBJECT_PENDING = 2"

text \<open>Modelled from the spec: bufferlist::is_zero is declared outside AioRequest.cc. A
  buffer is zero when every byte of it is zero; the empty buffer is zero.\<close>

definition is_zero :: "bufferlist \<Rightarrow> bool" where
  "is_zero bl = list_all (\<lambda>b. b = 0) bl"

text \<open>The parent read's completion is only ever created, referenced, blocked, unblocked and
  released here; the request keeps a pointer to it, which is NULL (\<open>None\<close>) or not.\<close>

datatype AioCompletion = AioCompletion_internal

datatype read_state = LIBRBD_AIO_READ_FLAT | LIBRBD_AIO_READ_GUARD | LIBRBD_AIO_READ_COPYUP

datatype write_state =
    LIBRBD_AIO_WRITE_FLAT | LIBRBD_AIO_WRITE_GUARD | LIBRBD_AIO_WRITE_PRE
  | LIBRBD_AIO_WRITE_POST | LIBRBD_AIO_WRITE_COPYUP | LIBRBD_AIO_WRITE_ERROR

text \<open>One step recorded on a librados ObjectWriteOperation or ObjectReadOperation builder.\<close>

datatype op_step =
    AssertExists
  | Exec string string bufferlist
  | SetAllocHint uint64 uint64
  | Write uint64 bufferlist
  | Read uint64 uint64
  | SparseRead uint64 uint64
  | SetOpFlags2 int
  | OtherOp string

text \<open>Modelled from the spec: CopyupRequest (CopyupRequest.h and CopyupRequest.cc are not
  part of this file). Section 3: object number, object id, the parent extents to fetch,
  the copyup data buffer and the append-only list of pending writes, here the addresses
  of the waiting requests.\<close>

record CopyupRequest =
  c_oid :: string
  c_object_no :: uint64
  c_parent_extents :: "extent list"
  c_copyup_data :: bufferlist
  c_pending_requests :: "nat list"

definition CopyupRequest_new :: "string \<Rightarrow> uint64 \<Rightarrow> extent list \<Rightarrow> CopyupRequest" where
  "CopyupRequest_new oid objectno pext =
     \<lparr>c_oid = oid, c_object_no = objectno, c_parent_extents = pext,
      c_copyup_data = [], c_pending_requests = []\<rparr>"

definition append_request :: "nat \<Rightarrow> CopyupRequest \<Rightarrow> CopyupRequest" where
  "append_request req c = c\<lparr>c_pending_requests := c_pending_requests c @ [req]\<rparr>"

text \<open>The image context. The fields after \<open>copyup_list\<close> stand for members and
  collaborators of ImageCtx that AioRequest.cc calls but does not define: each is the
  function the call computes, or the value the call returns.\<close>

record ImageCtx =
  parent :: "nat option"
  clone_copy_on_read :: bool
  read_only :: bool
  copyup_list :: "uint64 \<rightharpoonup> CopyupRequest"
  fl_object_size :: uint64
  get_object_size :: uint64
  extent_to_file :: "uint64 \<Rightarrow> uint64 \<Rightarrow> uint64 \<Rightarrow> extent list"
  get_parent_overlap :: "snap_t \<Rightarrow> int \<times> uint64"
  prune_parent_extents :: "extent list \<Rightarrow> uint64 \<Rightarrow> extent list \<times> uint64"
  get_read_flags :: "snap_t \<Rightarrow> int"
  object_map_enabled :: bool
  object_map :: "uint64 \<Rightarrow> uint8"
  object_may_exist :: "uint64 \<Rightarrow> bool"
  object_map_aio_update :: "uint64 \<Rightarrow> uint8 \<Rightarrow> uint8 option \<Rightarrow> bool"
  is_lock_owner :: bool
  aio_read :: "extent list \<Rightarrow> int"
  data_ctx_aio_operate_read :: "string \<Rightarrow> int"
  data_ctx_aio_operate_write :: "string \<Rightarrow> int"

datatype pc_call = PC_create | PC_get | PC_block | PC_unblock | PC_put | PC_release

text \<open>What a request does to the world outside itself, in program order: the user
  completion, its own deletion, the calls on the parent read's completion, the read from
  the parent image, copyup_list_lock and every access to copyup_list (a lookup is recorded
  with what it found), the start of a CopyupRequest, the ObjectMap update, and the operations sent to
  the data pool and to the metadata pool. The reader-writer locks (snap_lock,
  parent_lock, owner_lock, object_map_lock) are not traced.\<close>

datatype event =
    CompletionFired int
  | Destroyed
  | ParentCompletion pc_call
  | ParentRead "extent list"
  | CopyupListLock
  | CopyupListUnlock
  | CopyupListFind uint64 bool
  | CopyupListInsert uint64
  | CopyupAppendRequest uint64 nat
  | CopyupQueueSend uint64
  | CopyupSend uint64
  | ObjectMapUpdate uint64 uint8 "uint8 option"
  | DataRead string "op_step list" int
  | DataWrite string "op_step list" uint64 "snap_t list"
  | MdWrite string "op_step list" uint64 "snap_t list"

text \<open>The members of the three classes. \<open>this_addr\<close> is the address of the request, which
  append_request hands to a CopyupRequest. \<open>m_entire_object\<close> points to the copyup data
  of a CopyupRequest in copyup_list, and is modelled by that request's key.\<close>

record AioRequest =
  this_addr :: nat
  m_oid :: string
  m_object_no :: uint64
  m_object_off :: uint64
  m_object_len :: uint64
  m_snap_id :: snap_t
  m_parent_extents :: "extent list"
  m_parent_completion :: "AioCompletion option"
  m_hide_enoent :: bool
  m_read_data :: bufferlist

record AioRead = AioRequest +
  m_buffer_extents :: "extent list"
  m_tried_parent :: bool
  m_sparse :: bool
  m_op_flags :: int
  m_state :: read_state

record 'r world =
  ictx :: ImageCtx
  self :: 'r
  trace :: "event list"

definition emit :: "event list \<Rightarrow> 'r world \<Rightarrow> 'r world" where
  "emit es w = w\<lparr>trace := trace w @ es\<rparr>"

definition events_since :: "'r world \<Rightarrow> 'r world \<Rightarrow> event list" where
  "events_since w w' = drop (length (trace w)) (trace w')"

subsection \<open>AioRequest\<close>

text \<open>complete and read_from_parent call the virtual should_complete of the request's class:
  it is their first argument. The assertions on held reader-writer locks are not modelled.\<close>

definition compute_parent_extents ::
  "'a AioRequest_scheme world \<Rightarrow> bool \<times> 'a AioRequest_scheme world" where
  "compute_parent_extents w =
     (let (r, parent_overlap) = get_parent_overlap (ictx w) (m_snap_id (self w)) in
      if r < 0 then (False, w\<lparr>self := (self w)\<lparr>m_parent_extents := []\<rparr>\<rparr>)
      else
        let (pext, object_overlap) =
              prune_parent_extents (ictx w) (m_parent_extents (self w)) parent_overlap
        in (0 < object_overlap, w\<lparr>self := (self w)\<lparr>m_parent_extents := pext\<rparr>\<rparr>))"

text \<open>The destructor releases the parent read's completion if there is one; \<open>delete this\<close>
  runs the destructor and frees the request.\<close>

definition AioRequest_dtor :: "'a AioRequest_scheme world \<Rightarrow> 'a AioRequest_scheme world" where
  "AioRequest_dtor w =
     (if m_parent_completion (self w) \<noteq> None
      then emit [ParentCompletion PC_release] (w\<lparr>self := (self w)\<lparr>m_parent_completion := None\<rparr>\<rparr>)
      else w)"

definition delete_this :: "'a AioRequest_scheme world \<Rightarrow> 'a AioRequest_scheme world" where
  "delete_this w = emit [Destroyed] (AioRequest_dtor w)"

definition AioRequest_complete ::
  "(int \<Rightarrow> 'a AioRequest_scheme world \<Rightarrow> (bool \<times> 'a AioRequest_scheme world) option) \<Rightarrow>
   int \<Rightarrow> 'a AioRequest_scheme world \<Rightarrow> 'a AioRequest_scheme world option" where
  "AioRequest_complete should_complete r w =
     (case should_complete r w of
        None \<Rightarrow> None
      | Some (finished, w') \<Rightarrow>
          if finished then
            Some (delete_this
                    (emit [CompletionFired (if m_hide_enoent (self w') \<and> r = - ENOENT then 0 else r)]
                       w'))
          else Some w')"

definition read_from_parent ::
  "(int \<Rightarrow> 'a AioRequest_scheme world \<Rightarrow> (bool \<times> 'a AioRequest_scheme world) option) \<Rightarrow>
   extent list \<Rightarrow> bool \<Rightarrow> 'a AioRequest_scheme world \<Rightarrow> 'a AioRequest_scheme world option" where
  "read_from_parent should_complete parent_extents block_completion w =
     (if m_parent_completion (self w) \<noteq> None then None
      else
        let w1 = emit [ParentCompletion PC_create]
                   (w\<lparr>self := (self w)\<lparr>m_parent_completion := Some AioCompletion_internal\<rparr>\<rparr>);
            w2 = (if block_completion
                  then emit [ParentCompletion PC_get, ParentCompletion PC_block] w1 else w1);
            w3 = emit [ParentRead parent_extents] w2;
            r = aio_read (ictx w3) parent_extents
        in if r < 0
           then AioRequest_complete should_complete r (emit [ParentCompletion PC_release] w3)
           else Some w3)"

definition is_copy_on_read :: "ImageCtx \<Rightarrow> snap_t \<Rightarrow> bool" where
  "is_copy_on_read ic snap_id \<longleftrightarrow>
     clone_copy_on_read ic \<and> \<not> read_only ic \<and> snap_id = CEPH_NOSNAP"

text \<open>On which worlds the two methods call should_complete: complete on its own argument,
  read_from_parent only after it has set the parent completion, on a world whose
  subclass members are untouched. The recursive definitions below rest on this.\<close>

lemma AioRequest_complete_cong [fundef_cong]:
  "r = r' \<Longrightarrow> w = w' \<Longrightarrow> sc r' w' = sc' r' w' \<Longrightarrow>
   AioRequest_complete sc r w = AioRequest_complete sc' r' w'"
  by (simp add: AioRequest_complete_def)

lemma read_from_parent_cong [fundef_cong]:
  "pe = pe' \<Longrightarrow> b = b' \<Longrightarrow> w = w' \<Longrightarrow>
   (\<And>r v. m_parent_completion (self w') = None \<Longrightarrow> m_parent_completion (self v) \<noteq> None \<Longrightarrow>
      AioRequest.more (self v) = AioRequest.more (self w') \<Longrightarrow> sc r v = sc' r v) \<Longrightarrow>
   read_from_parent sc pe b w = read_from_parent sc' pe' b' w'"
  unfolding read_from_parent_def Let_def
  by (auto simp: emit_def intro!: AioRequest_complete_cong)

text \<open>Modelled from the spec: has_parent() is declared in AioRequest.h. Section 4: a
  request is guarded iff it has parent overlap, that is, its pruned parent extents are
  not empty.\<close>

definition has_parent :: "'a AioRequest_scheme \<Rightarrow> bool" where
  "has_parent q \<longleftrightarrow> m_parent_extents q \<noteq> []"

subsection \<open>AioRead\<close>

definition guard_read :: "AioRead world \<Rightarrow> AioRead world" where
  "guard_read w =
     (if has_parent (self w) then w\<lparr>self := (self w)\<lparr>m_state := LIBRBD_AIO_READ_GUARD\<rparr>\<rparr> else w)"

definition AioRead_new ::
  "ImageCtx \<Rightarrow> nat \<Rightarrow> string \<Rightarrow> uint64 \<Rightarrow> uint64 \<Rightarrow> uint64 \<Rightarrow> extent list \<Rightarrow> snap_t \<Rightarrow> bool \<Rightarrow>
   int \<Rightarrow> AioRead world" where
  "AioRead_new ic addr oid objectno offset len be snap_id sparse op_flags =
     guard_read (snd (compute_parent_extents
       \<lparr>ictx = ic,
        self = \<lparr>this_addr = addr, m_oid = oid, m_object_no = objectno, m_object_off = offset,
                m_object_len = len, m_snap_id = snap_id,
                m_parent_extents = extent_to_file ic objectno 0 (fl_object_size ic),
                m_parent_completion = None, m_hide_enoent = False, m_read_data = [],
                m_buffer_extents = be, m_tried_parent = False, m_sparse = sparse,
                m_op_flags = op_flags, m_state = LIBRBD_AIO_READ_FLAT\<rparr>,
        trace = []\<rparr>))"

text \<open>The body of the \<open>r > 0\<close> branch of READ_COPYUP: under copyup_list_lock, look the
  object number up and, if it is absent and there is still parent overlap, insert a new
  CopyupRequest and queue it.\<close>

definition read_copyup :: "AioRead world \<Rightarrow> AioRead world" where
  "read_copyup w =
     (let w1 = emit [CopyupListLock,
                     CopyupListFind (m_object_no (self w))
                       (copyup_list (ictx w) (m_object_no (self w)) \<noteq> None)] w in
      case copyup_list (ictx w1) (m_object_no (self w1)) of
        Some c \<Rightarrow> emit [CopyupListUnlock] w1
      | None \<Rightarrow>
          (case compute_parent_extents w1 of
             (True, w2) \<Rightarrow>
               let new_req = CopyupRequest_new (m_oid (self w2)) (m_object_no (self w2))
                               (m_parent_extents (self w2));
                   w3 = w2\<lparr>ictx := (ictx w2)\<lparr>copyup_list :=
                              (copyup_list (ictx w2))(m_object_no (self w2) \<mapsto> new_req)\<rparr>\<rparr>
               in emit [CopyupListInsert (m_object_no (self w2)),
                        CopyupQueueSend (m_object_no (self w2)), CopyupListUnlock] w3
           | (False, w2) \<Rightarrow> emit [CopyupListUnlock] w2))"

lemma AioRead_more_eq:
  fixes a b :: AioRead
  assumes "AioRequest.more a = AioRequest.more b"
  shows "m_tried_parent a = m_tried_parent b" and "m_state a = m_state b"
  using assms by (cases a, cases b, simp)+

text \<open>In READ_GUARD, the reverse mapping of the request's own sub-extent onto the image,
  pruned by the parent overlap: the extents to read from the parent and the overlap in
  bytes. The source assigns the result of get_parent_overlap to its parameter \<open>r\<close>,
  which is \<open>r'\<close> here; the caller's \<open>r\<close> is a copy and is not affected.\<close>

definition read_guard_overlap :: "AioRead world \<Rightarrow> extent list \<times> uint64" where
  "read_guard_overlap w =
     (let parent_extents = extent_to_file (ictx w) (m_object_no (self w))
                             (m_object_off (self w)) (m_object_len (self w));
          (r', parent_overlap) = get_parent_overlap (ictx w) (m_snap_id (self w))
      in if r' = 0 then prune_parent_extents (ictx w) parent_extents parent_overlap
         else (parent_extents, 0))"

text \<open>should_complete. When read_from_parent fails to start the read it completes the
  request itself, which deletes it, and the source then goes on to test m_tried_parent
  and to unblock m_parent_completion of the deleted request. That is a use of freed
  memory, to which the model gives no result (\<open>None\<close>). The three states are all the
  values of the enumeration, so the source's default branch is not reached.\<close>

function AioRead_should_complete :: "int \<Rightarrow> AioRead world \<Rightarrow> (bool \<times> AioRead world) option" where
  "AioRead_should_complete r w =
     (case m_state (self w) of
        LIBRBD_AIO_READ_GUARD \<Rightarrow>
          if \<not> m_tried_parent (self w) \<and> r = - ENOENT then
            (if parent (ictx w) = None
             then Some (False, w\<lparr>self := (self w)\<lparr>m_state := LIBRBD_AIO_READ_FLAT\<rparr>\<rparr>)
             else
               let (parent_extents, object_overlap) = read_guard_overlap w
               in if 0 < object_overlap then
                    let w1 = w\<lparr>self := (self w)\<lparr>m_tried_parent := True\<rparr>\<rparr>;
                        w2 = (if is_copy_on_read (ictx w1) (m_snap_id (self w1))
                              then w1\<lparr>self := (self w1)\<lparr>m_state := LIBRBD_AIO_READ_COPYUP\<rparr>\<rparr>
                              else w1)
                    in (case read_from_parent AioRead_should_complete parent_extents True w2 of
                          None \<Rightarrow> None
                        | Some w3 \<Rightarrow>
                            if Destroyed \<in> set (events_since w2 w3) then None
                            else if m_tried_parent (self w3)
                            then Some (False, emit [ParentCompletion PC_unblock,
                                                    ParentCompletion PC_put] w3)
                            else Some (False, w3))
                  else Some (True, w))
          else Some (True, w)
      | LIBRBD_AIO_READ_COPYUP \<Rightarrow>
          if \<not> m_tried_parent (self w) then None
          else if 0 < r then Some (True, read_copyup w)
          else Some (True, w)
      | LIBRBD_AIO_READ_FLAT \<Rightarrow> Some (True, w))"
  by pat_completeness auto
termination
  apply (relation "measure (\<lambda>(r, w). if m_tried_parent (self w) then 0 else 1)")
   apply simp
  apply (auto split: if_splits dest!: AioRead_more_eq(1))
  done

definition AioRead_send :: "AioRead world \<Rightarrow> (int \<times> AioRead world) option" where
  "AioRead_send w =
     (if \<not> object_may_exist (ictx w) (m_object_no (self w)) then
        (case AioRequest_complete AioRead_should_complete (- ENOENT) w of
           None \<Rightarrow> None
         | Some w' \<Rightarrow> Some (0, w'))
      else
        let flags = get_read_flags (ictx w) (m_snap_id (self w));
            op = (if m_sparse (self w)
                  then [SparseRead (m_object_off (self w)) (m_object_len (self w))]
                  else [Read (m_object_off (self w)) (m_object_len (self w))]);
            op = op @ [SetOpFlags2 (m_op_flags (self w))];
            r = data_ctx_aio_operate_read (ictx w) (m_oid (self w))
        in Some (r, emit [DataRead (m_oid (self w)) op flags] w))"

subsection \<open>AbstractWrite\<close>

text \<open>The last three fields are the subclass's virtual hooks. An ObjectWriteOperation
  only grows, so \<open>add_write_ops\<close> is given by the steps the subclass appends;
  \<open>pre_object_map_update\<close> is the state it writes to its out-parameter.\<close>

record AbstractWrite = AioRequest +
  m_state :: write_state
  m_snap_seq :: uint64
  m_snaps :: "snap_t list"
  m_entire_object :: "uint64 option"
  m_write :: "op_step list"
  add_write_ops :: "op_step list"
  pre_object_map_update :: uint8
  post_object_map_update :: bool

definition AbstractWrite_new ::
  "ImageCtx \<Rightarrow> nat \<Rightarrow> string \<Rightarrow> uint64 \<Rightarrow> uint64 \<Rightarrow> uint64 \<Rightarrow> uint64 \<Rightarrow> snap_t list \<Rightarrow> bool \<Rightarrow>
   op_step list \<Rightarrow> uint8 \<Rightarrow> bool \<Rightarrow> AbstractWrite world" where
  "AbstractWrite_new ic addr oid object_no object_off len snap_seq snaps hide_enoent
     ops pre post =
     snd (compute_parent_extents
       \<lparr>ictx = ic,
        self = \<lparr>this_addr = addr, m_oid = oid, m_object_no = object_no,
                m_object_off = object_off, m_object_len = len, m_snap_id = CEPH_NOSNAP,
                m_parent_extents = extent_to_file ic object_no 0 (fl_object_size ic),
                m_parent_completion = None, m_hide_enoent = hide_enoent, m_read_data = [],
                m_state = LIBRBD_AIO_WRITE_FLAT, m_snap_seq = snap_seq, m_snaps = snaps,
                m_entire_object = None, m_write = [], add_write_ops = ops,
                pre_object_map_update = pre, post_object_map_update = post\<rparr>,
        trace = []\<rparr>)"

definition guard_write :: "AbstractWrite world \<Rightarrow> AbstractWrite world" where
  "guard_write w =
     (if has_parent (self w)
      then w\<lparr>self := (self w)\<lparr>m_state := LIBRBD_AIO_WRITE_GUARD,
                               m_write := m_write (self w) @ [AssertExists]\<rparr>\<rparr>
      else w)"

definition send_pre :: "AbstractWrite world \<Rightarrow> (bool \<times> AbstractWrite world) option" where
  "send_pre w =
     (if \<not> object_map_enabled (ictx w) then Some (True, w)
      else if \<not> is_lock_owner (ictx w) then None
      else
        let w1 = w\<lparr>self := (self w)\<lparr>m_state := LIBRBD_AIO_WRITE_PRE\<rparr>\<rparr>;
            new_state = pre_object_map_update (self w1);
            current_state = None
        in if object_map (ictx w1) (m_object_no (self w1)) = new_state then Some (True, w1)
           else
             let w2 = emit [ObjectMapUpdate (m_object_no (self w1)) new_state current_state] w1;
                 updated = object_map_aio_update (ictx w2) (m_object_no (self w2)) new_state
                             current_state
             in if \<not> updated then None else Some (False, w2))"

definition send_post :: "AbstractWrite world \<Rightarrow> (bool \<times> AbstractWrite world) option" where
  "send_post w =
     (if \<not> object_map_enabled (ictx w) \<or> \<not> post_object_map_update (self w) then Some (True, w)
      else if \<not> is_lock_owner (ictx w) then None
      else
        let w1 = w\<lparr>self := (self w)\<lparr>m_state := LIBRBD_AIO_WRITE_POST\<rparr>\<rparr>;
            current_state = object_map (ictx w1) (m_object_no (self w1))
        in if current_state \<noteq> OBJECT_PENDING \<or> current_state = OBJECT_NONEXISTENT
           then Some (True, w1)
           else
             let w2 = emit [ObjectMapUpdate (m_object_no (self w1)) OBJECT_NONEXISTENT
                              (Some OBJECT_PENDING)] w1;
                 updated = object_map_aio_update (ictx w2) (m_object_no (self w2))
                             OBJECT_NONEXISTENT (Some OBJECT_PENDING)
             in if \<not> updated then None else Some (False, w2))"

definition send_write :: "AbstractWrite world \<Rightarrow> AbstractWrite world option" where
  "send_write w =
     (let w1 = guard_write (w\<lparr>self := (self w)\<lparr>m_state := LIBRBD_AIO_WRITE_FLAT\<rparr>\<rparr>);
          w2 = w1\<lparr>self := (self w1)\<lparr>m_write := m_write (self w1) @ add_write_ops (self w1)\<rparr>\<rparr>
      in if length (m_write (self w2)) = 0 then None
         else
           let w3 = emit [DataWrite (m_oid (self w2)) (m_write (self w2)) (m_snap_seq (self w2))
                            (m_snaps (self w2))] w2;
               r = data_ctx_aio_operate_write (ictx w3) (m_oid (self w3))
           in if r \<noteq> 0 then None else Some w3)"

definition send_copyup :: "AbstractWrite world \<Rightarrow> AbstractWrite world option" where
  "send_copyup w =
     (let op = (if \<not> is_zero (m_read_data (self w))
                then [Exec ''rbd'' ''copyup'' (m_read_data (self w))] else []);
          op = op @ add_write_ops (self w)
      in if length op = 0 then None
         else Some (emit [MdWrite (m_oid (self w)) op (m_snap_seq (self w)) (m_snaps (self w))] w))"

text \<open>The copy-on-read branch of WRITE_GUARD: under copyup_list_lock, look the object number
  up; create, join and insert a CopyupRequest if it is absent, and start it after the
  lock is released; join the one that is there otherwise.\<close>

definition write_copyup :: "AbstractWrite world \<Rightarrow> AbstractWrite world" where
  "write_copyup w =
     (let objno = m_object_no (self w);
          w1 = emit [CopyupListLock, CopyupListFind objno (copyup_list (ictx w) objno \<noteq> None)] w
      in case copyup_list (ictx w1) objno of
           None \<Rightarrow>
             let new_req = CopyupRequest_new (m_oid (self w1)) objno (m_parent_extents (self w1));
                 new_req = append_request (this_addr (self w1)) new_req;
                 w2 = emit [CopyupAppendRequest objno (this_addr (self w1)), CopyupListInsert objno]
                        (w1\<lparr>ictx := (ictx w1)\<lparr>copyup_list := (copyup_list (ictx w1))(objno \<mapsto> new_req)\<rparr>\<rparr>);
                 w3 = w2\<lparr>self := (self w2)\<lparr>m_entire_object := Some objno\<rparr>\<rparr>
             in emit [CopyupListUnlock, CopyupSend objno] w3
         | Some c \<Rightarrow>
             let w2 = emit [CopyupAppendRequest objno (this_addr (self w1))]
                        (w1\<lparr>ictx := (ictx w1)\<lparr>copyup_list :=
                               (copyup_list (ictx w1))(objno \<mapsto> append_request (this_addr (self w1)) c)\<rparr>\<rparr>);
                 w3 = w2\<lparr>self := (self w2)\<lparr>m_entire_object := Some objno\<rparr>\<rparr>
             in emit [CopyupListUnlock] w3)"

text \<open>In WRITE_COPYUP, a write that waits on a CopyupRequest copies its data, after the
  assertion that the write's own read buffer is empty.\<close>

definition append_entire_object :: "AbstractWrite world \<Rightarrow> AbstractWrite world option" where
  "append_entire_object w =
     (case m_entire_object (self w) of
        None \<Rightarrow> Some w
      | Some p \<Rightarrow>
          if length (m_read_data (self w)) \<noteq> 0 then None
          else (case copyup_list (ictx w) p of
                  None \<Rightarrow> None
                | Some c \<Rightarrow>
                    Some (w\<lparr>self := (self w)\<lparr>m_read_data := m_read_data (self w) @ c_copyup_data c\<rparr>\<rparr>)))"

fun write_rank :: "write_state \<Rightarrow> nat" where
  "write_rank LIBRBD_AIO_WRITE_COPYUP = 2"
| "write_rank LIBRBD_AIO_WRITE_GUARD = 1"
| "write_rank _ = 0"

lemma AbstractWrite_more_eq:
  fixes a b :: AbstractWrite
  assumes "AioRequest.more a = AioRequest.more b"
  shows "m_state a = m_state b"
  using assms by (cases a, cases b, simp)

text \<open>should_complete. It calls itself directly (WRITE_COPYUP with an error), through
  complete (WRITE_GUARD with an error other than -ENOENT) and through read_from_parent;
  each call is on a state of lower rank or follows the one parent read a request may
  start.\<close>

function AbstractWrite_should_complete ::
  "int \<Rightarrow> AbstractWrite world \<Rightarrow> (bool \<times> AbstractWrite world) option" where
  "AbstractWrite_should_complete r w =
     (case m_state (self w) of
        LIBRBD_AIO_WRITE_PRE \<Rightarrow>
          if r < 0 then Some (True, w)
          else (case send_write w of None \<Rightarrow> None | Some w1 \<Rightarrow> Some (False, w1))
      | LIBRBD_AIO_WRITE_POST \<Rightarrow> Some (True, w)
      | LIBRBD_AIO_WRITE_GUARD \<Rightarrow>
          if r = - ENOENT then
            (case compute_parent_extents w of
               (True, w1) \<Rightarrow>
                 let w2 = w1\<lparr>self := (self w1)\<lparr>m_state := LIBRBD_AIO_WRITE_COPYUP\<rparr>\<rparr> in
                 if is_copy_on_read (ictx w2) CEPH_NOSNAP then Some (False, write_copyup w2)
                 else (case read_from_parent AbstractWrite_should_complete
                              (m_parent_extents (self w2)) False w2 of
                         None \<Rightarrow> None
                       | Some w3 \<Rightarrow> Some (False, w3))
             | (False, w1) \<Rightarrow>
                 (case send_copyup (w1\<lparr>self := (self w1)\<lparr>m_state := LIBRBD_AIO_WRITE_FLAT\<rparr>\<rparr>) of
                    None \<Rightarrow> None
                  | Some w2 \<Rightarrow> Some (False, w2)))
          else if r < 0 then
            (case AioRequest_complete AbstractWrite_should_complete r
                    (w\<lparr>self := (self w)\<lparr>m_state := LIBRBD_AIO_WRITE_ERROR\<rparr>\<rparr>) of
               None \<Rightarrow> None
             | Some w1 \<Rightarrow> Some (False, w1))
          else send_post w
      | LIBRBD_AIO_WRITE_COPYUP \<Rightarrow>
          let w1 = w\<lparr>self := (self w)\<lparr>m_state := LIBRBD_AIO_WRITE_GUARD\<rparr>\<rparr> in
          if r < 0 then AbstractWrite_should_complete r w1
          else (case append_entire_object w1 of
                  None \<Rightarrow> None
                | Some w2 \<Rightarrow>
                    (case send_copyup w2 of None \<Rightarrow> None | Some w3 \<Rightarrow> Some (False, w3)))
      | LIBRBD_AIO_WRITE_FLAT \<Rightarrow> send_post w
      | LIBRBD_AIO_WRITE_ERROR \<Rightarrow> if \<not> r < 0 then None else Some (True, w))"
  by pat_completeness auto
termination
  apply (relation "measure (\<lambda>(r, w).
           (if m_parent_completion (self w) = None then 3 else 0) + write_rank (m_state (self w)))")
     apply simp
    apply (auto simp: compute_parent_extents_def Let_def split: if_splits prod.splits
                dest!: AbstractWrite_more_eq)
  done

definition AbstractWrite_send :: "AbstractWrite world \<Rightarrow> (int \<times> AbstractWrite world) option" where
  "AbstractWrite_send w =
     (case send_pre w of
        None \<Rightarrow> None
      | Some (False, w1) \<Rightarrow> Some (0, w1)
      | Some (True, w1) \<Rightarrow> (case send_write w1 of None \<Rightarrow> None | Some w2 \<Rightarrow> Some (0, w2)))"

subsection \<open>AioWrite\<close>

definition AioWrite_add_write_ops :: "ImageCtx \<Rightarrow> uint64 \<Rightarrow> bufferlist \<Rightarrow> int \<Rightarrow> op_step list" where
  "AioWrite_add_write_ops ic object_off write_data op_flags =
     [SetAllocHint (get_object_size ic) (get_object_size ic), Write object_off write_data,
      SetOpFlags2 op_flags]"


subsection \<open>Observations on traces\<close>

fun is_store_read :: "event \<Rightarrow> bool" where
  "is_store_read (DataRead oid op flags) = True"
| "is_store_read _ = False"

fun is_completion :: "event \<Rightarrow> bool" where
  "is_completion (CompletionFired r) = True"
| "is_completion Destroyed = True"
| "is_completion _ = False"

fun is_copyup_insert :: "event \<Rightarrow> bool" where
  "is_copyup_insert (CopyupListInsert n) = True"
| "is_copyup_insert _ = False"


text \<open>Where a trace stands with respect to copyup_list_lock: the lock is free, or held with
  no lookup made yet, or held after the lookup of a key, with whether the key has an
  entry now.\<close>

datatype critical_section = Unlocked | Locked | LookedUp uint64 bool

text \<open>The accesses to copyup_list in a trace are atomic: the lock is taken only when free and
  is free at the end; a critical section makes one lookup; a CopyupRequest is inserted
  only in the critical section that looked its key up and found no entry, and at most
  once; a waiter is appended only in the critical section that looked the key up.\<close>

fun copyup_list_atomic :: "critical_section \<Rightarrow> event list \<Rightarrow> bool" where
  "copyup_list_atomic s [] = (s = Unlocked)"
| "copyup_list_atomic s (CopyupListLock # es) = (s = Unlocked \<and> copyup_list_atomic Locked es)"
| "copyup_list_atomic s (CopyupListUnlock # es) = (s \<noteq> Unlocked \<and> copyup_list_atomic Unlocked es)"
| "copyup_list_atomic s (CopyupListFind n found # es) =
     (s = Locked \<and> copyup_list_atomic (LookedUp n found) es)"
| "copyup_list_atomic s (CopyupListInsert n # es) =
     (s = LookedUp n False \<and> copyup_list_atomic (LookedUp n True) es)"
| "copyup_list_atomic s (CopyupAppendRequest n a # es) =
     ((s = LookedUp n False \<or> s = LookedUp n True) \<and> copyup_list_atomic s es)"
| "copyup_list_atomic s (e # es) = copyup_list_atomic s es"

subsection \<open>The life of a read request\<close>

text \<open>A read request is constructed, sent, and re-entered through complete(r) by every
  asynchronous reply. Between two calls other threads may change the image context, and
  an asynchronous read may have filled the request's read buffer.\<close>

inductive read_reachable :: "AioRead world \<Rightarrow> bool" where
  constructed:
    "read_reachable (AioRead_new ic addr oid objectno offset len be snap_id sparse op_flags)"
| image_changed: "read_reachable w \<Longrightarrow> read_reachable (w\<lparr>ictx := ic\<rparr>)"
| data_arrived: "read_reachable w \<Longrightarrow> read_reachable (w\<lparr>self := (self w)\<lparr>m_read_data := d\<rparr>\<rparr>)"
| sent: "read_reachable w \<Longrightarrow> AioRead_send w = Some (r, w') \<Longrightarrow> read_reachable w'"
| replied:
    "read_reachable w \<Longrightarrow> AioRequest_complete AioRead_should_complete r w = Some w' \<Longrightarrow>
     read_reachable w'"

section \<open>A concrete image and concrete requests\<close>

fun prune_extents :: "extent list \<Rightarrow> uint64 \<Rightarrow> extent list" where
  "prune_extents [] overlap = []"
| "prune_extents ((off, len) # es) overlap =
     (if overlap \<le> off then [] else (off, min len (overlap - off)) # prune_extents es overlap)"

definition clone_image :: ImageCtx where
  "clone_image =
     \<lparr>parent = Some 1, clone_copy_on_read = True, read_only = False, copyup_list = Map.empty,
      fl_object_size = 4096, get_object_size = 4096,
      extent_to_file = (\<lambda>objectno off len. [(objectno * 4096 + off, len)]),
      get_parent_overlap = (\<lambda>snap_id. (0, 8192)),
      prune_parent_extents =
        (\<lambda>exts overlap. (prune_extents exts overlap, sum_list (map snd (prune_extents exts overlap)))),
      get_read_flags = (\<lambda>snap_id. 0),
      object_map_enabled = True, object_map = (\<lambda>n. OBJECT_EXISTS),
      object_may_exist = (\<lambda>n. True), object_map_aio_update = (\<lambda>n s c. True),
      is_lock_owner = True, aio_read = (\<lambda>exts. 0),
      data_ctx_aio_operate_read = (\<lambda>oid. 0), data_ctx_aio_operate_write = (\<lambda>oid. 0)\<rparr>"

definition flat_image :: ImageCtx where
  "flat_image = clone_image\<lparr>parent := None, get_parent_overlap := (\<lambda>snap_id. (0, 0))\<rparr>"

definition flat_read :: "AioRead world" where
  "flat_read = AioRead_new flat_image 7 ''rb.0.1.0'' 0 0 4096 [(0, 4096)] CEPH_NOSNAP False 0"

definition clone_read :: "AioRead world" where
  "clone_read = AioRead_new clone_image 7 ''rb.0.1.0'' 0 0 4096 [(0, 4096)] CEPH_NOSNAP False 0"

text \<open>The same clone read after the parent overlap has shrunk to zero.\<close>

definition shrunk_read :: "AioRead world" where
  "shrunk_read = clone_read\<lparr>ictx := clone_image\<lparr>get_parent_overlap := (\<lambda>snap_id. (0, 0))\<rparr>\<rparr>"

text \<open>The same clone read on an image whose ObjectMap says the object cannot exist.\<close>

definition absent_read :: "AioRead world" where
  "absent_read = clone_read\<lparr>ictx := clone_image\<lparr>object_may_exist := (\<lambda>n. False)\<rparr>\<rparr>"

text \<open>The same clone read after the parent has been detached.\<close>

definition orphan_read :: "AioRead world" where
  "orphan_read = clone_read\<lparr>ictx := clone_image\<lparr>parent := None\<rparr>\<rparr>"

text \<open>A write of three bytes to the first object of the clone, with the hooks of a plain
  write: the ObjectMap cell is to become OBJECT_EXISTS and there is no post transition.\<close>

definition clone_write :: "AbstractWrite world" where
  "clone_write =
     AbstractWrite_new clone_image 9 ''rb.0.1.0'' 0 0 3 1 [] False
       (AioWrite_add_write_ops clone_image 0 [1, 2, 3] 0) OBJECT_EXISTS False"

text \<open>The same write after it was sent: guarded, because the request has parent overlap.\<close>

definition guarded_write :: "AbstractWrite world" where
  "guarded_write =
     clone_write\<lparr>self := (self clone_write)\<lparr>m_state := LIBRBD_AIO_WRITE_GUARD,
                     m_write := [AssertExists, SetAllocHint 4096 4096, Write 0 [1, 2, 3],
                                 SetOpFlags2 0]\<rparr>,
                 trace := [DataWrite ''rb.0.1.0''
                             [AssertExists, SetAllocHint 4096 4096, Write 0 [1, 2, 3],
                              SetOpFlags2 0] 1 []]\<rparr>"

text \<open>A discard of the same object while its ObjectMap cell is OBJECT_PENDING: the cell is to
  become OBJECT_PENDING before, and a post transition is asked for.\<close>

definition pending_discard :: "AbstractWrite world" where
  "pending_discard =
     AbstractWrite_new (clone_image\<lparr>object_map := (\<lambda>n. OBJECT_PENDING)\<rparr>) 9 ''rb.0.1.0'' 0 0 4096
       1 [] True [OtherOp ''remove''] OBJECT_PENDING True"

text \<open>The same discard after it was sent, guarded, and the parent overlap has since shrunk to
  zero.\<close>

definition guarded_discard :: "AbstractWrite world" where
  "guarded_discard =
     pending_discard\<lparr>ictx := clone_image\<lparr>object_map := (\<lambda>n. OBJECT_PENDING),
                                            get_parent_overlap := (\<lambda>snap_id. (0, 0))\<rparr>,
                     self := (self pending_discard)\<lparr>m_state := LIBRBD_AIO_WRITE_GUARD,
                                 m_write := [AssertExists, OtherOp ''remove'']\<rparr>,
                     trace := [DataWrite ''rb.0.1.0'' [AssertExists, OtherOp ''remove''] 1 []]\<rparr>"

text \<open>The same discard after the guarded write was answered -ENOENT and the write alone was
  issued again, and after the reply to that operation.\<close>

definition flat_discard :: "AbstractWrite world" where
  "flat_discard =
     guarded_discard\<lparr>self := (self guarded_discard)\<lparr>m_state := LIBRBD_AIO_WRITE_FLAT,
                                 m_parent_extents := []\<rparr>,
                     trace := trace guarded_discard @
                                [MdWrite ''rb.0.1.0'' [OtherOp ''remove''] 1 []]\<rparr>"

definition posting_discard :: "AbstractWrite world" where
  "posting_discard =
     flat_discard\<lparr>self := (self flat_discard)\<lparr>m_state := LIBRBD_AIO_WRITE_POST\<rparr>,
                  trace := trace flat_discard @
                             [ObjectMapUpdate 0 OBJECT_NONEXISTENT (Some OBJECT_PENDING)]\<rparr>"

text \<open>An image without an ObjectMap: the map is disabled, would reject any update, and the
  client does not own the lock.\<close>

definition unmapped_image :: ImageCtx where
  "unmapped_image =
     clone_image\<lparr>object_map_enabled := False, object_map_aio_update := (\<lambda>n s c. False),
                 is_lock_owner := False\<rparr>"

text \<open>The life of a copy-on-write on a clone without copy-on-read, up to the reply to its
  copyup operation: the guarded write was sent and answered -ENOENT, the parent read was
  issued and brought four bytes, and the copyup operation carrying them was issued. Here
  the parent overlap has since shrunk to zero.\<close>

definition cow_image :: ImageCtx where
  "cow_image = clone_image\<lparr>clone_copy_on_read := False\<rparr>"

definition cow_write :: "AbstractWrite world" where
  "cow_write =
     AbstractWrite_new cow_image 9 ''rb.0.1.0'' 0 0 3 1 [] False
       (AioWrite_add_write_ops cow_image 0 [1, 2, 3] 0) OBJECT_EXISTS False"

definition copied_write :: "AbstractWrite world" where
  "copied_write =
     \<lparr>ictx = cow_image,
      self = \<lparr>this_addr = 9, m_oid = ''rb.0.1.0'', m_object_no = 0, m_object_off = 0,
              m_object_len = 3, m_snap_id = CEPH_NOSNAP, m_parent_extents = [(0, 4096)],
              m_parent_completion = Some AioCompletion_internal, m_hide_enoent = False,
              m_read_data = [9, 9, 9, 9],
              m_state = LIBRBD_AIO_WRITE_GUARD, m_snap_seq = 1, m_snaps = [],
              m_entire_object = None,
              m_write = [AssertExists, SetAllocHint 4096 4096, Write 0 [1, 2, 3], SetOpFlags2 0],
              add_write_ops = [SetAllocHint 4096 4096, Write 0 [1, 2, 3], SetOpFlags2 0],
              pre_object_map_update = OBJECT_EXISTS, post_object_map_update = False\<rparr>,
      trace = [DataWrite ''rb.0.1.0''
                 [AssertExists, SetAllocHint 4096 4096, Write 0 [1, 2, 3], SetOpFlags2 0] 1 [],
               ParentCompletion PC_create, ParentRead [(0, 4096)],
               MdWrite ''rb.0.1.0''
                 [Exec ''rbd'' ''copyup'' [9, 9, 9, 9], SetAllocHint 4096 4096,
                  Write 0 [1, 2, 3], SetOpFlags2 0] 1 []]\<rparr>"

definition stale_write :: "AbstractWrite world" where
  "stale_write = copied_write\<lparr>ictx := cow_image\<lparr>get_parent_overlap := (\<lambda>snap_id. (0, 0))\<rparr>\<rparr>"

text \<open>The clone read after its guarded read was answered -ENOENT and the parent read was
  issued.\<close>

definition served_read :: "AioRead world" where
  "served_read =
     clone_read\<lparr>self := (self clone_read)\<lparr>m_parent_completion := Some AioCompletion_internal,
                                           m_tried_parent := True,
                                           AioRead.m_state := LIBRBD_AIO_READ_COPYUP\<rparr>,
                trace := [ParentCompletion PC_create, ParentCompletion PC_get,
                          ParentCompletion PC_block, ParentRead [(0, 4096)],
                          ParentCompletion PC_unblock, ParentCompletion PC_put]\<rparr>"

section \<open>Properties\<close>

declare AioRead_should_complete.simps [simp del]
declare AbstractWrite_should_complete.simps [simp del]

lemma events_since_emit [simp]: "events_since w (emit es w) = es"
  by (simp add: events_since_def emit_def)

lemma emit_fields [simp]:
  "ictx (emit es w) = ictx w" "self (emit es w) = self w" "trace (emit es w) = trace w @ es"
  by (simp_all add: emit_def)

lemma delete_this_fields [simp]:
  "ictx (delete_this w) = ictx w"
  "trace (delete_this w) =
     trace w @ (if m_parent_completion (self w) \<noteq> None then [ParentCompletion PC_release] else [])
       @ [Destroyed]"
  "m_parent_completion (self (delete_this w)) = None"
  "m_hide_enoent (self (delete_this w)) = m_hide_enoent (self w)"
  "AioRequest.more (self (delete_this w)) = AioRequest.more (self w)"
  by (auto simp: delete_this_def AioRequest_dtor_def)

lemma delete_this_read [simp]:
  fixes w :: "AioRead world"
  shows "m_tried_parent (self (delete_this w)) = m_tried_parent (self w)"
    and "AioRead.m_state (self (delete_this w)) = AioRead.m_state (self w)"
  by (auto simp: delete_this_def AioRequest_dtor_def)

subsection \<open>AioRead: auxiliary facts\<close>

lemma flat_read_eq:
  "flat_read =
     \<lparr>ictx = flat_image,
      self = \<lparr>this_addr = 7, m_oid = ''rb.0.1.0'', m_object_no = 0, m_object_off = 0,
              m_object_len = 4096, m_snap_id = CEPH_NOSNAP, m_parent_extents = [],
              m_parent_completion = None, m_hide_enoent = False, m_read_data = [],
              m_buffer_extents = [(0, 4096)], m_tried_parent = False, m_sparse = False,
              m_op_flags = 0, m_state = LIBRBD_AIO_READ_FLAT\<rparr>,
      trace = []\<rparr>"
  by (simp add: flat_read_def AioRead_new_def compute_parent_extents_def flat_image_def
      clone_image_def guard_read_def has_parent_def)

lemma clone_read_eq:
  "clone_read =
     \<lparr>ictx = clone_image,
      self = \<lparr>this_addr = 7, m_oid = ''rb.0.1.0'', m_object_no = 0, m_object_off = 0,
              m_object_len = 4096, m_snap_id = CEPH_NOSNAP, m_parent_extents = [(0, 4096)],
              m_parent_completion = None, m_hide_enoent = False, m_read_data = [],
              m_buffer_extents = [(0, 4096)], m_tried_parent = False, m_sparse = False,
              m_op_flags = 0, m_state = LIBRBD_AIO_READ_GUARD\<rparr>,
      trace = []\<rparr>"
  by (simp add: clone_read_def AioRead_new_def compute_parent_extents_def
      clone_image_def guard_read_def has_parent_def)

lemma clone_read_reachable: "read_reachable clone_read"
  unfolding clone_read_def by (rule read_reachable.constructed)

lemma flat_read_reachable: "read_reachable flat_read"
  unfolding flat_read_def by (rule read_reachable.constructed)

lemma AioRead_should_complete_tried:
  assumes "m_tried_parent (self w)"
  shows "AioRead_should_complete r w =
           Some (True, if AioRead.m_state (self w) = LIBRBD_AIO_READ_COPYUP \<and> 0 < r
                       then read_copyup w else w)"
  using assms by (simp add: AioRead_should_complete.simps split: read_state.splits)

lemma read_copyup_self:
  "m_hide_enoent (self (read_copyup w)) = m_hide_enoent (self w)"
  "m_parent_completion (self (read_copyup w)) = m_parent_completion (self w)"
  "m_tried_parent (self (read_copyup w)) = m_tried_parent (self w)"
  "AioRead.m_state (self (read_copyup w)) = AioRead.m_state (self w)"
  by (simp_all add: read_copyup_def compute_parent_extents_def Let_def
      split: option.splits prod.splits bool.splits)


lemma AioRead_guard_parent_read_fails:
  assumes st: "AioRead.m_state (self w) = LIBRBD_AIO_READ_GUARD"
      and nt: "\<not> m_tried_parent (self w)"
      and pa: "parent (ictx w) \<noteq> None"
      and ov: "read_guard_overlap w = (parent_extents, object_overlap)" "0 < object_overlap"
      and ko: "aio_read (ictx w) parent_extents < 0"
  shows "AioRead_should_complete (- ENOENT) w = None"
  using assms
  by (auto simp: AioRead_should_complete.simps [of "- ENOENT" w] read_from_parent_def Let_def
      AioRequest_complete_def AioRead_should_complete_tried emit_def events_since_def)

lemma AioRead_should_complete_trace:
  assumes "AioRead_should_complete r w = Some (b, w')"
  shows "\<exists>es. trace w' = trace w @ es \<and> filter is_store_read es = [] \<and>
              filter is_completion es = []"
proof (cases "m_tried_parent (self w)")
  case True
  with assms show ?thesis
    by (auto simp: AioRead_should_complete_tried read_copyup_def compute_parent_extents_def
        Let_def emit_def split: if_splits option.splits prod.splits bool.splits)
next
  case False
  with assms show ?thesis
    by (auto simp: AioRead_should_complete.simps [of r w] read_from_parent_def
        AioRequest_complete_def AioRead_should_complete_tried Let_def emit_def events_since_def
        split: read_state.splits if_splits prod.splits option.splits)
qed

definition read_inv :: "AioRead world \<Rightarrow> bool" where
  "read_inv w \<longleftrightarrow>
     \<not> m_hide_enoent (self w) \<and>
     (m_parent_completion (self w) \<noteq> None \<longrightarrow> m_tried_parent (self w)) \<and>
     (AioRead.m_state (self w) = LIBRBD_AIO_READ_COPYUP \<longrightarrow> m_tried_parent (self w))"

lemma AioRead_should_complete_inv:
  assumes "AioRead_should_complete r w = Some (b, w')" and "read_inv w"
  shows "read_inv w'"
proof (cases "m_tried_parent (self w)")
  case True
  with assms show ?thesis
    by (auto simp: AioRead_should_complete_tried read_inv_def read_copyup_self split: if_splits)
next
  case False
  with assms show ?thesis
    by (auto simp: AioRead_should_complete.simps [of r w] read_inv_def read_copyup_self
        read_from_parent_def AioRequest_complete_def AioRead_should_complete_tried Let_def
        events_since_def
        split: read_state.splits if_splits prod.splits option.splits)
qed

lemma AioRead_complete_inv:
  assumes "AioRequest_complete AioRead_should_complete r w = Some w'" and "read_inv w"
  shows "read_inv w'"
  using assms AioRead_should_complete_inv [of r w]
  by (auto simp: AioRequest_complete_def read_inv_def split: option.splits if_splits)

lemma read_reachable_inv: "read_reachable w \<Longrightarrow> read_inv w"
proof (induction rule: read_reachable.induct)
  case (constructed ic addr oid objectno offset len be snap_id sparse op_flags)
  show ?case
    by (simp add: read_inv_def AioRead_new_def guard_read_def compute_parent_extents_def Let_def
        has_parent_def split: prod.splits)
next
  case (image_changed w ic)
  then show ?case by (simp add: read_inv_def)
next
  case (data_arrived w d)
  then show ?case by (simp add: read_inv_def)
next
  case (sent w r w')
  then show ?case
    by (auto simp: AioRead_send_def Let_def read_inv_def [of "emit _ _"] read_inv_def [of w]
        split: if_splits option.splits dest: AioRead_complete_inv)
next
  case (replied w r w')
  then show ?case by (auto dest: AioRead_complete_inv)
qed

text \<open>A read returns from should_complete unless a parent read it goes on to make fails to
  start.\<close>

lemma AioRead_should_complete_returns:
  assumes "read_inv w"
      and "AioRead.m_state (self w) = LIBRBD_AIO_READ_GUARD \<and> \<not> m_tried_parent (self w) \<and>
           parent (ictx w) \<noteq> None \<and> 0 < snd (read_guard_overlap w) \<longrightarrow>
             \<not> aio_read (ictx w) (fst (read_guard_overlap w)) < 0"
  shows "\<exists>b w'. AioRead_should_complete r w = Some (b, w')"
proof (cases "m_tried_parent (self w)")
  case True
  then show ?thesis by (auto simp: AioRead_should_complete_tried)
next
  case False
  with assms show ?thesis
    by (auto simp: AioRead_should_complete.simps [of r w] read_from_parent_def read_inv_def
        AioRequest_complete_def AioRead_should_complete_tried Let_def emit_def events_since_def
        split: read_state.splits if_splits prod.splits option.splits)
qed

subsection \<open>AbstractWrite: auxiliary facts\<close>





lemma write_flat_finishes:
  assumes "m_state (self v) = LIBRBD_AIO_WRITE_FLAT"
      and "\<not> object_map_enabled (ictx v) \<or> \<not> post_object_map_update (self v)"
  shows "AbstractWrite_should_complete r v = Some (True, v)"
  using assms by (auto simp: AbstractWrite_should_complete.simps [of r v] send_post_def)






lemma clone_write_eq:
  "clone_write =
     \<lparr>ictx = clone_image,
      self = \<lparr>this_addr = 9, m_oid = ''rb.0.1.0'', m_object_no = 0, m_object_off = 0,
              m_object_len = 3, m_snap_id = CEPH_NOSNAP, m_parent_extents = [(0, 4096)],
              m_parent_completion = None, m_hide_enoent = False, m_read_data = [],
              m_state = LIBRBD_AIO_WRITE_FLAT, m_snap_seq = 1, m_snaps = [],
              m_entire_object = None, m_write = [],
              add_write_ops = [SetAllocHint 4096 4096, Write 0 [1, 2, 3], SetOpFlags2 0],
              pre_object_map_update = OBJECT_EXISTS, post_object_map_update = False\<rparr>,
      trace = []\<rparr>"
  by (simp add: clone_write_def AbstractWrite_new_def compute_parent_extents_def
      clone_image_def AioWrite_add_write_ops_def)

lemma pending_discard_eq:
  "pending_discard =
     \<lparr>ictx = clone_image\<lparr>object_map := (\<lambda>n. OBJECT_PENDING)\<rparr>,
      self = \<lparr>this_addr = 9, m_oid = ''rb.0.1.0'', m_object_no = 0, m_object_off = 0,
              m_object_len = 4096, m_snap_id = CEPH_NOSNAP, m_parent_extents = [(0, 4096)],
              m_parent_completion = None, m_hide_enoent = True, m_read_data = [],
              m_state = LIBRBD_AIO_WRITE_FLAT, m_snap_seq = 1, m_snaps = [],
              m_entire_object = None, m_write = [],
              add_write_ops = [OtherOp ''remove''],
              pre_object_map_update = OBJECT_PENDING, post_object_map_update = True\<rparr>,
      trace = []\<rparr>"
  by (simp add: pending_discard_def AbstractWrite_new_def compute_parent_extents_def
      clone_image_def)

lemma guarded_write_reached: "AbstractWrite_send clone_write = Some (0, guarded_write)"
  by (simp add: guarded_write_def clone_write_eq clone_image_def AbstractWrite_send_def
      send_pre_def send_write_def guard_write_def has_parent_def emit_def Let_def)

subsection \<open>AioRequest::complete\<close>





subsection \<open>AioRead::should_complete in READ_GUARD\<close>



text \<open>C4, as the claim states it, fails. On a clone read in READ_GUARD that has not tried the
  parent, with the parent still attached and a parent overlap of zero, the recomputed
  parent extents are empty; should_complete(-ENOENT) then returns finished, and the state
  is still READ_GUARD, where the claim has not-finished and READ_FLAT.\<close>

theorem read_guard_empty_extents_counterexample:
  "AioRead.m_state (self shrunk_read) = LIBRBD_AIO_READ_GUARD \<and>
   \<not> m_tried_parent (self shrunk_read) \<and>
   fst (read_guard_overlap shrunk_read) = [] \<and>
   map_option fst (AioRead_should_complete (- ENOENT) shrunk_read) = Some True \<and>
   map_option (AioRead.m_state \<circ> self \<circ> snd) (AioRead_should_complete (- ENOENT) shrunk_read) =
     Some LIBRBD_AIO_READ_GUARD"
  by (simp add: shrunk_read_def clone_read_eq clone_image_def AioRead_should_complete.simps
      read_guard_overlap_def Let_def)

text \<open>C4, amended. An AioRead in state READ_GUARD that has not tried the parent is completed
  with -ENOENT. If the parent has vanished, or the parent overlap cannot be retrieved, or
  the recomputed overlap of the request's sub-extent is zero, should_complete returns
  without issuing a parent read or anything else. In the last two cases, the parent
  being still attached, it returns finished and changes nothing: the state stays
  READ_GUARD, and complete goes on to deliver the -ENOENT and destroy the request.\<close>

theorem read_guard_enoent_without_parent_data:
  assumes "AioRead.m_state (self w) = LIBRBD_AIO_READ_GUARD"
      and "\<not> m_tried_parent (self w)"
  shows "(parent (ictx w) = None \<or> snd (read_guard_overlap w) = 0 \<longrightarrow>
            (\<exists>b w'. AioRead_should_complete (- ENOENT) w = Some (b, w') \<and> trace w' = trace w)) \<and>
         (snd (read_guard_overlap w) = 0 \<longleftrightarrow>
            fst (get_parent_overlap (ictx w) (m_snap_id (self w))) \<noteq> 0 \<or>
            snd (prune_parent_extents (ictx w)
                   (extent_to_file (ictx w) (m_object_no (self w)) (m_object_off (self w))
                      (m_object_len (self w)))
                   (snd (get_parent_overlap (ictx w) (m_snap_id (self w))))) = 0) \<and>
         (parent (ictx w) \<noteq> None \<and> snd (read_guard_overlap w) = 0 \<longrightarrow>
            AioRead_should_complete (- ENOENT) w = Some (True, w) \<and>
            AioRequest_complete AioRead_should_complete (- ENOENT) w =
              Some (delete_this
                      (emit [CompletionFired (if m_hide_enoent (self w) then 0 else - ENOENT)] w)))"
  using assms
  by (auto simp: AioRead_should_complete.simps [of "- ENOENT" w] AioRequest_complete_def
      read_guard_overlap_def Let_def split: prod.splits if_splits)

theorem read_guard_enoent_without_parent_data_witness:
  "(\<exists>b w'. AioRead_should_complete (- ENOENT) orphan_read = Some (b, w') \<and>
            trace w' = trace orphan_read) \<and>
   AioRequest_complete AioRead_should_complete (- ENOENT) shrunk_read =
     Some (delete_this (emit [CompletionFired (- ENOENT)] shrunk_read))"
proof -
  have "AioRead.m_state (self orphan_read) = LIBRBD_AIO_READ_GUARD"
       "\<not> m_tried_parent (self orphan_read)" "parent (ictx orphan_read) = None"
    by (simp_all add: orphan_read_def clone_read_eq)
  with read_guard_enoent_without_parent_data [of orphan_read]
  have a: "\<exists>b w'. AioRead_should_complete (- ENOENT) orphan_read = Some (b, w') \<and>
            trace w' = trace orphan_read"
    by blast
  have "AioRead.m_state (self shrunk_read) = LIBRBD_AIO_READ_GUARD"
       "\<not> m_tried_parent (self shrunk_read)" "parent (ictx shrunk_read) \<noteq> None"
       "snd (read_guard_overlap shrunk_read) = 0"
       "\<not> m_hide_enoent (self shrunk_read)"
    by (simp_all add: shrunk_read_def clone_read_eq clone_image_def read_guard_overlap_def)
  with read_guard_enoent_without_parent_data [of shrunk_read]
  have "AioRequest_complete AioRead_should_complete (- ENOENT) shrunk_read =
     Some (delete_this (emit [CompletionFired (- ENOENT)] shrunk_read))"
    by simp
  with a show ?thesis by blast
qed

subsection \<open>AioRead::send\<close>

text \<open>C9, as the claim states it, fails. On a clone image whose ObjectMap says the object cannot
  exist, send() of a guarded read returns 0 and issues no object-store read, but the
  request does not complete with -ENOENT: no completion fires; complete(-ENOENT) enters
  READ_GUARD and a read from the parent is issued instead.\<close>

theorem read_send_absent_object_counterexample:
  "\<not> object_may_exist (ictx absent_read) (m_object_no (self absent_read)) \<and>
   map_option fst (AioRead_send absent_read) = Some 0 \<and>
   map_option (trace \<circ> snd) (AioRead_send absent_read) =
     Some [ParentCompletion PC_create, ParentCompletion PC_get, ParentCompletion PC_block,
           ParentRead [(0, 4096)], ParentCompletion PC_unblock, ParentCompletion PC_put] \<and>
   CompletionFired (- ENOENT) \<notin> set (the (map_option (trace \<circ> snd) (AioRead_send absent_read)))"
  by (simp add: absent_read_def clone_read_eq clone_image_def AioRead_send_def
      AioRequest_complete_def AioRead_should_complete.simps read_from_parent_def
      read_guard_overlap_def is_copy_on_read_def emit_def events_since_def Let_def)

text \<open>C9, amended. For every reachable AioRead, send() first consults the ObjectMap. If
  object_may_exist(object_no) is false, it calls complete(-ENOENT), as if the object store
  had answered NotFound, and returns 0 without issuing any object-store read; a request
  in state READ_FLAT is thereby completed at once with -ENOENT, while a guarded request
  goes through READ_GUARD and may read from the parent. Otherwise exactly one read is
  issued to the object store, sparse or dense per the sparse flag, followed by the
  op-flags, with the snapshot's read flags, and send returns what the object store
  returned. Nothing is said of the case in which the ObjectMap says the object cannot
  exist and the guarded request's read from the parent fails to start.\<close>

theorem read_send_consults_object_map:
  assumes "read_reachable w"
      and "\<not> object_may_exist (ictx w) (m_object_no (self w)) \<and>
           AioRead.m_state (self w) = LIBRBD_AIO_READ_GUARD \<and> \<not> m_tried_parent (self w) \<and>
           parent (ictx w) \<noteq> None \<and> 0 < snd (read_guard_overlap w) \<longrightarrow>
             \<not> aio_read (ictx w) (fst (read_guard_overlap w)) < 0"
  shows "(\<not> object_may_exist (ictx w) (m_object_no (self w)) \<longrightarrow>
            (\<exists>w'. AioRequest_complete AioRead_should_complete (- ENOENT) w = Some w' \<and>
                  AioRead_send w = Some (0, w') \<and>
                  (\<exists>es. trace w' = trace w @ es \<and> filter is_store_read es = []) \<and>
                  (AioRead.m_state (self w) = LIBRBD_AIO_READ_FLAT \<longrightarrow>
                     w' = delete_this (emit [CompletionFired (- ENOENT)] w)))) \<and>
         (object_may_exist (ictx w) (m_object_no (self w)) \<longrightarrow>
            AioRead_send w =
              Some (data_ctx_aio_operate_read (ictx w) (m_oid (self w)),
                    emit [DataRead (m_oid (self w))
                            [if m_sparse (self w)
                             then SparseRead (m_object_off (self w)) (m_object_len (self w))
                             else Read (m_object_off (self w)) (m_object_len (self w)),
                             SetOpFlags2 (m_op_flags (self w))]
                            (get_read_flags (ictx w) (m_snap_id (self w)))] w))"
proof (intro conjI impI)
  assume absent: "\<not> object_may_exist (ictx w) (m_object_no (self w))"
  from assms(1) have inv: "read_inv w" by (rule read_reachable_inv)
  from absent assms(2)
  have "AioRead.m_state (self w) = LIBRBD_AIO_READ_GUARD \<and> \<not> m_tried_parent (self w) \<and>
        parent (ictx w) \<noteq> None \<and> 0 < snd (read_guard_overlap w) \<longrightarrow>
          \<not> aio_read (ictx w) (fst (read_guard_overlap w)) < 0"
    by blast
  from AioRead_should_complete_returns [OF inv this]
  obtain b w1 where sc: "AioRead_should_complete (- ENOENT) w = Some (b, w1)"
    by blast
  from AioRead_should_complete_trace [OF sc]
  obtain es where es: "trace w1 = trace w @ es" "filter is_store_read es = []" by blast
  define w' where "w' = (if b then delete_this (emit [CompletionFired (- ENOENT)] w1) else w1)"
  from AioRead_should_complete_inv [OF sc inv] have "\<not> m_hide_enoent (self w1)"
    by (simp add: read_inv_def)
  with sc have c: "AioRequest_complete AioRead_should_complete (- ENOENT) w = Some w'"
    by (simp add: AioRequest_complete_def w'_def)
  have t: "\<exists>es. trace w' = trace w @ es \<and> filter is_store_read es = []"
    using es by (cases b) (simp_all add: w'_def)
  have f: "AioRead.m_state (self w) = LIBRBD_AIO_READ_FLAT \<longrightarrow>
             w' = delete_this (emit [CompletionFired (- ENOENT)] w)"
    using sc by (auto simp: w'_def AioRead_should_complete.simps [of "- ENOENT" w])
  show "\<exists>w'. AioRequest_complete AioRead_should_complete (- ENOENT) w = Some w' \<and>
              AioRead_send w = Some (0, w') \<and>
              (\<exists>es. trace w' = trace w @ es \<and> filter is_store_read es = []) \<and>
              (AioRead.m_state (self w) = LIBRBD_AIO_READ_FLAT \<longrightarrow>
                 w' = delete_this (emit [CompletionFired (- ENOENT)] w))"
    using c t f absent by (auto simp: AioRead_send_def)
next
  assume "object_may_exist (ictx w) (m_object_no (self w))"
  then show "AioRead_send w =
              Some (data_ctx_aio_operate_read (ictx w) (m_oid (self w)),
                    emit [DataRead (m_oid (self w))
                            [if m_sparse (self w)
                             then SparseRead (m_object_off (self w)) (m_object_len (self w))
                             else Read (m_object_off (self w)) (m_object_len (self w)),
                             SetOpFlags2 (m_op_flags (self w))]
                            (get_read_flags (ictx w) (m_snap_id (self w)))] w)"
    by (simp add: AioRead_send_def Let_def)
qed

theorem read_send_consults_object_map_witness:
  "AioRead_send (flat_read\<lparr>ictx := flat_image\<lparr>object_may_exist := (\<lambda>n. False)\<rparr>\<rparr>) =
     Some (0, delete_this (emit [CompletionFired (- ENOENT)]
                (flat_read\<lparr>ictx := flat_image\<lparr>object_may_exist := (\<lambda>n. False)\<rparr>\<rparr>))) \<and>
   AioRead_send flat_read =
     Some (0, emit [DataRead ''rb.0.1.0'' [Read 0 4096, SetOpFlags2 0] 0] flat_read) \<and>
   (\<exists>w'. AioRead_send absent_read = Some (0, w'))"
proof -
  let ?w = "flat_read\<lparr>ictx := flat_image\<lparr>object_may_exist := (\<lambda>n. False)\<rparr>\<rparr>"
  have r: "read_reachable ?w"
    by (rule read_reachable.image_changed [OF flat_read_reachable])
  have "\<not> object_may_exist (ictx ?w) (m_object_no (self ?w))"
       "AioRead.m_state (self ?w) = LIBRBD_AIO_READ_FLAT"
    by (simp_all add: flat_read_eq)
  with read_send_consults_object_map [OF r]
  have a: "AioRead_send ?w = Some (0, delete_this (emit [CompletionFired (- ENOENT)] ?w))"
    by auto
  have "object_may_exist (ictx flat_read) (m_object_no (self flat_read))"
    by (simp add: flat_read_eq flat_image_def clone_image_def)
  with read_send_consults_object_map [OF flat_read_reachable]
  have b: "AioRead_send flat_read =
     Some (0, emit [DataRead ''rb.0.1.0'' [Read 0 4096, SetOpFlags2 0] 0] flat_read)"
    by (simp add: flat_read_eq flat_image_def clone_image_def)
  have ra: "read_reachable absent_read"
    unfolding absent_read_def by (rule read_reachable.image_changed [OF clone_read_reachable])
  have "\<not> object_may_exist (ictx absent_read) (m_object_no (self absent_read))"
       "\<not> aio_read (ictx absent_read) (fst (read_guard_overlap absent_read)) < 0"
    by (simp_all add: absent_read_def clone_read_eq clone_image_def)
  with read_send_consults_object_map [OF ra]
  have "\<exists>w'. AioRead_send absent_read = Some (0, w')"
    by blast
  with a b show ?thesis by blast
qed

subsection \<open>Reads never hide ENOENT\<close>

text \<open>C10. The AioRead constructor builds its AioRequest base with hide_enoent false, and no
  step of a read request's life changes the flag. So on every reachable read request,
  when should_complete(-ENOENT) returns true, complete(-ENOENT) delivers -ENOENT itself,
  which is not 0, to the user completion, and then destroys the request.\<close>

theorem read_delivers_enoent_unchanged:
  assumes "read_reachable w"
  shows "m_hide_enoent (self (AioRead_new ic addr oid objectno offset len be snap_id sparse
                                op_flags)) = False \<and>
         \<not> m_hide_enoent (self w) \<and>
         (\<forall>w'. AioRead_should_complete (- ENOENT) w = Some (True, w') \<longrightarrow>
               AioRequest_complete AioRead_should_complete (- ENOENT) w =
                 Some (delete_this (emit [CompletionFired (- ENOENT)] w'))) \<and>
         - ENOENT \<noteq> 0"
proof -
  have "read_inv (AioRead_new ic addr oid objectno offset len be snap_id sparse op_flags)"
    by (rule read_reachable_inv [OF read_reachable.constructed])
  moreover from assms have inv: "read_inv w" by (rule read_reachable_inv)
  moreover have "\<And>b w'. AioRead_should_complete (- ENOENT) w = Some (b, w') \<Longrightarrow>
                   \<not> m_hide_enoent (self w')"
    using AioRead_should_complete_inv [OF _ inv] by (auto simp: read_inv_def)
  ultimately show ?thesis
    by (auto simp: read_inv_def AioRequest_complete_def ENOENT_def)
qed

theorem read_delivers_enoent_unchanged_witness:
  "AioRequest_complete AioRead_should_complete (- ENOENT) shrunk_read =
     Some (delete_this (emit [CompletionFired (- ENOENT)] shrunk_read)) \<and>
   trace (delete_this (emit [CompletionFired (- ENOENT)] shrunk_read)) =
     [CompletionFired (- ENOENT), Destroyed] \<and> - ENOENT \<noteq> 0"
proof -
  have r: "read_reachable shrunk_read"
    unfolding shrunk_read_def by (rule read_reachable.image_changed [OF clone_read_reachable])
  have "AioRead_should_complete (- ENOENT) shrunk_read = Some (True, shrunk_read)"
    by (simp add: shrunk_read_def clone_read_eq clone_image_def AioRead_should_complete.simps
        read_guard_overlap_def Let_def)
  moreover have "trace (delete_this (emit [CompletionFired (- ENOENT)] shrunk_read)) =
     [CompletionFired (- ENOENT), Destroyed]"
    by (simp add: shrunk_read_def clone_read_eq)
  ultimately show ?thesis
    using read_delivers_enoent_unchanged [OF r] by blast
qed

subsection \<open>AbstractWrite: ObjectMap transitions\<close>

text \<open>C5. send_pre, under the function's two assertions where it makes them (the image
  watcher owns the lock if the ObjectMap is enabled; the ObjectMap accepts the update if
  one is issued): it returns true exactly when the ObjectMap is disabled or the cell of
  the object number already equals the state given by pre_object_map_update, and then it
  has issued nothing; otherwise it returns false, the state is WRITE_PRE, and it has
  issued exactly one aio_update(object_no, new_state) with no expected current state.\<close>

theorem send_pre_updates_object_map:
  assumes "object_map_enabled (ictx w) \<longrightarrow> is_lock_owner (ictx w)"
      and "object_map_enabled (ictx w) \<and>
           object_map (ictx w) (m_object_no (self w)) \<noteq> pre_object_map_update (self w) \<longrightarrow>
             object_map_aio_update (ictx w) (m_object_no (self w)) (pre_object_map_update (self w))
               None"
  shows "\<exists>b w'. send_pre w = Some (b, w') \<and> ictx w' = ictx w \<and>
           (b \<longleftrightarrow> \<not> object_map_enabled (ictx w) \<or>
                  object_map (ictx w) (m_object_no (self w)) = pre_object_map_update (self w)) \<and>
           (b \<longrightarrow> events_since w w' = []) \<and>
           (\<not> object_map_enabled (ictx w) \<longrightarrow> w' = w) \<and>
           (\<not> b \<longrightarrow> m_state (self w') = LIBRBD_AIO_WRITE_PRE \<and>
                   events_since w w' =
                     [ObjectMapUpdate (m_object_no (self w)) (pre_object_map_update (self w)) None])"
  using assms by (auto simp: send_pre_def Let_def events_since_def emit_def)

theorem send_pre_updates_object_map_witness:
  "send_pre (clone_write\<lparr>ictx := unmapped_image\<rparr>) = Some (True, clone_write\<lparr>ictx := unmapped_image\<rparr>) \<and>
   (\<exists>w'. send_pre clone_write = Some (True, w') \<and> trace w' = []) \<and>
   (\<exists>w'. send_pre (clone_write\<lparr>ictx := clone_image\<lparr>object_map := (\<lambda>n. OBJECT_NONEXISTENT)\<rparr>\<rparr>) =
            Some (False, w') \<and>
          trace w' = [ObjectMapUpdate 0 OBJECT_EXISTS None])"
proof -
  let ?u = "clone_write\<lparr>ictx := unmapped_image\<rparr>"
  let ?v = "clone_write\<lparr>ictx := clone_image\<lparr>object_map := (\<lambda>n. OBJECT_NONEXISTENT)\<rparr>\<rparr>"
  have u: "\<not> object_map_enabled (ictx ?u)"
    by (simp add: unmapped_image_def)
  then have "object_map_enabled (ictx ?u) \<longrightarrow> is_lock_owner (ictx ?u)"
    "object_map_enabled (ictx ?u) \<and>
     object_map (ictx ?u) (m_object_no (self ?u)) \<noteq> pre_object_map_update (self ?u) \<longrightarrow>
       object_map_aio_update (ictx ?u) (m_object_no (self ?u)) (pre_object_map_update (self ?u))
         None"
    by simp_all
  from send_pre_updates_object_map [OF this] u
  have a: "send_pre ?u = Some (True, ?u)"
    by auto
  have "object_map_enabled (ictx clone_write) \<longrightarrow> is_lock_owner (ictx clone_write)"
    "object_map_enabled (ictx clone_write) \<and>
     object_map (ictx clone_write) (m_object_no (self clone_write)) \<noteq>
       pre_object_map_update (self clone_write) \<longrightarrow>
       object_map_aio_update (ictx clone_write) (m_object_no (self clone_write))
         (pre_object_map_update (self clone_write)) None"
    by (simp_all add: clone_write_eq clone_image_def)
  from send_pre_updates_object_map [OF this]
  obtain b w' where h: "send_pre clone_write = Some (b, w')"
    "b \<longleftrightarrow> \<not> object_map_enabled (ictx clone_write) \<or>
           object_map (ictx clone_write) (m_object_no (self clone_write)) =
             pre_object_map_update (self clone_write)"
    "b \<longrightarrow> events_since clone_write w' = []"
    by blast
  have "b" using h(2) by (simp add: clone_write_eq clone_image_def)
  with h have c: "\<exists>w'. send_pre clone_write = Some (True, w') \<and> trace w' = []"
    by (auto simp: events_since_def clone_write_eq)
  have "object_map_enabled (ictx ?v) \<longrightarrow> is_lock_owner (ictx ?v)"
       "object_map_enabled (ictx ?v) \<and>
        object_map (ictx ?v) (m_object_no (self ?v)) \<noteq> pre_object_map_update (self ?v) \<longrightarrow>
          object_map_aio_update (ictx ?v) (m_object_no (self ?v)) (pre_object_map_update (self ?v))
             None"
    by (simp_all add: clone_write_eq clone_image_def)
  from send_pre_updates_object_map [OF this]
  obtain b w' where h: "send_pre ?v = Some (b, w')"
    "b \<longleftrightarrow> \<not> object_map_enabled (ictx ?v) \<or>
           object_map (ictx ?v) (m_object_no (self ?v)) = pre_object_map_update (self ?v)"
    "\<not> b \<longrightarrow> events_since ?v w' =
              [ObjectMapUpdate (m_object_no (self ?v)) (pre_object_map_update (self ?v)) None]"
    by blast
  have "\<not> b"
    using h(2) by (simp add: clone_write_eq clone_image_def OBJECT_NONEXISTENT_def OBJECT_EXISTS_def)
  with h have "send_pre ?v = Some (False, w')" "trace w' = [ObjectMapUpdate 0 OBJECT_EXISTS None]"
    by (simp_all add: events_since_def clone_write_eq)
  with a c show ?thesis by blast
qed

text \<open>C6. send_post, under the function's two assertions where it makes them (the image
  watcher owns the lock if the ObjectMap is enabled and a post transition is asked for;
  the ObjectMap accepts the update if one is issued): it returns false exactly when the
  ObjectMap is enabled, post_object_map_update asks for a post transition and the cell
  of the object number is OBJECT_PENDING; in that case the state is WRITE_POST and it
  has issued exactly one aio_update from OBJECT_PENDING to OBJECT_NONEXISTENT. In every
  other case it returns true and has issued nothing.\<close>

theorem send_post_updates_object_map:
  assumes "object_map_enabled (ictx w) \<and> post_object_map_update (self w) \<longrightarrow>
             is_lock_owner (ictx w)"
      and "object_map_enabled (ictx w) \<and> post_object_map_update (self w) \<and>
           object_map (ictx w) (m_object_no (self w)) = OBJECT_PENDING \<longrightarrow>
             object_map_aio_update (ictx w) (m_object_no (self w)) OBJECT_NONEXISTENT
               (Some OBJECT_PENDING)"
  shows "\<exists>b w'. send_post w = Some (b, w') \<and> ictx w' = ictx w \<and>
           (\<not> b \<longleftrightarrow> object_map_enabled (ictx w) \<and> post_object_map_update (self w) \<and>
                    object_map (ictx w) (m_object_no (self w)) = OBJECT_PENDING) \<and>
           (\<not> b \<longrightarrow> m_state (self w') = LIBRBD_AIO_WRITE_POST \<and>
                   events_since w w' =
                     [ObjectMapUpdate (m_object_no (self w)) OBJECT_NONEXISTENT
                        (Some OBJECT_PENDING)]) \<and>
           (b \<longrightarrow> events_since w w' = [])"
  using assms
  by (auto simp: send_post_def Let_def events_since_def emit_def OBJECT_PENDING_def
      OBJECT_NONEXISTENT_def)

theorem send_post_updates_object_map_witness:
  "(\<exists>w'. send_post pending_discard = Some (False, w') \<and>
      m_state (self w') = LIBRBD_AIO_WRITE_POST \<and>
      trace w' = [ObjectMapUpdate 0 OBJECT_NONEXISTENT (Some OBJECT_PENDING)]) \<and>
   (\<exists>w'. send_post (pending_discard\<lparr>ictx := unmapped_image\<rparr>) = Some (True, w') \<and> trace w' = []) \<and>
   (\<exists>w'. send_post (pending_discard\<lparr>ictx := clone_image\<lparr>object_map_aio_update := (\<lambda>n s c. False)\<rparr>\<rparr>) =
            Some (True, w') \<and> trace w' = [])"
proof -
  let ?u = "pending_discard\<lparr>ictx := unmapped_image\<rparr>"
  let ?e = "pending_discard\<lparr>ictx := clone_image\<lparr>object_map_aio_update := (\<lambda>n s c. False)\<rparr>\<rparr>"
  have "object_map_enabled (ictx pending_discard) \<and> post_object_map_update (self pending_discard) \<longrightarrow>
          is_lock_owner (ictx pending_discard)"
       "object_map_enabled (ictx pending_discard) \<and> post_object_map_update (self pending_discard) \<and>
        object_map (ictx pending_discard) (m_object_no (self pending_discard)) = OBJECT_PENDING \<longrightarrow>
          object_map_aio_update (ictx pending_discard) (m_object_no (self pending_discard))
            OBJECT_NONEXISTENT (Some OBJECT_PENDING)"
    by (simp_all add: pending_discard_eq clone_image_def)
  from send_post_updates_object_map [OF this]
  obtain b w' where h: "send_post pending_discard = Some (b, w')"
    "\<not> b \<longleftrightarrow> object_map_enabled (ictx pending_discard) \<and>
            post_object_map_update (self pending_discard) \<and>
            object_map (ictx pending_discard) (m_object_no (self pending_discard)) = OBJECT_PENDING"
    "\<not> b \<longrightarrow> m_state (self w') = LIBRBD_AIO_WRITE_POST \<and>
            events_since pending_discard w' =
              [ObjectMapUpdate (m_object_no (self pending_discard)) OBJECT_NONEXISTENT
                 (Some OBJECT_PENDING)]"
    by blast
  have "\<not> b"
    using h(2) by (simp add: pending_discard_eq clone_image_def)
  with h have a: "\<exists>w'. send_post pending_discard = Some (False, w') \<and>
      m_state (self w') = LIBRBD_AIO_WRITE_POST \<and>
      trace w' = [ObjectMapUpdate 0 OBJECT_NONEXISTENT (Some OBJECT_PENDING)]"
    by (auto simp: events_since_def pending_discard_eq)
  have u: "\<not> object_map_enabled (ictx ?u)" "trace ?u = []"
    by (simp_all add: unmapped_image_def pending_discard_eq)
  then have "object_map_enabled (ictx ?u) \<and> post_object_map_update (self ?u) \<longrightarrow>
          is_lock_owner (ictx ?u)"
       "object_map_enabled (ictx ?u) \<and> post_object_map_update (self ?u) \<and>
        object_map (ictx ?u) (m_object_no (self ?u)) = OBJECT_PENDING \<longrightarrow>
          object_map_aio_update (ictx ?u) (m_object_no (self ?u))
            OBJECT_NONEXISTENT (Some OBJECT_PENDING)"
    by simp_all
  from send_post_updates_object_map [OF this] u
  have b: "\<exists>w'. send_post ?u = Some (True, w') \<and> trace w' = []"
    by (auto simp: events_since_def)
  have e: "object_map (ictx ?e) (m_object_no (self ?e)) \<noteq> OBJECT_PENDING"
    "is_lock_owner (ictx ?e)" "trace ?e = []"
    by (simp_all add: clone_image_def pending_discard_eq OBJECT_PENDING_def OBJECT_EXISTS_def)
  then have "object_map_enabled (ictx ?e) \<and> post_object_map_update (self ?e) \<longrightarrow>
          is_lock_owner (ictx ?e)"
       "object_map_enabled (ictx ?e) \<and> post_object_map_update (self ?e) \<and>
        object_map (ictx ?e) (m_object_no (self ?e)) = OBJECT_PENDING \<longrightarrow>
          object_map_aio_update (ictx ?e) (m_object_no (self ?e))
            OBJECT_NONEXISTENT (Some OBJECT_PENDING)"
    by simp_all
  from send_post_updates_object_map [OF this] e
  have "\<exists>w'. send_post ?e = Some (True, w') \<and> trace w' = []"
    by (auto simp: events_since_def)
  with a b show ?thesis by blast
qed

subsection \<open>AbstractWrite::send_copyup\<close>

text \<open>C7. send_copyup, for a write whose subclass appends at least one step: it issues exactly
  one operation, against the metadata pool, for the request's object id, with the write's
  snapshot sequence and snapshot ids. The operation is the subclass's write steps,
  preceded by exec("rbd", "copyup", read data) exactly when the read data is not zero; an
  empty buffer and a buffer of zero bytes are zero, and then the operation is the write
  steps alone. Nothing else in the world changes.\<close>

theorem send_copyup_builds_one_operation:
  assumes "add_write_ops (self w) \<noteq> []"
  shows "\<exists>op. send_copyup w =
                 Some (emit [MdWrite (m_oid (self w)) op (m_snap_seq (self w)) (m_snaps (self w))] w) \<and>
              (is_zero (m_read_data (self w)) \<longrightarrow> op = add_write_ops (self w)) \<and>
              (\<not> is_zero (m_read_data (self w)) \<longrightarrow>
                 op = Exec ''rbd'' ''copyup'' (m_read_data (self w)) # add_write_ops (self w)) \<and>
              (is_zero (m_read_data (self w)) \<longleftrightarrow> (\<forall>b \<in> set (m_read_data (self w)). b = 0)) \<and>
              is_zero []"
  using assms by (auto simp: send_copyup_def Let_def is_zero_def list_all_iff)

theorem send_copyup_builds_one_operation_witness:
  "send_copyup (clone_write\<lparr>self := (self clone_write)\<lparr>m_read_data := [0, 5]\<rparr>\<rparr>) =
     Some (emit [MdWrite ''rb.0.1.0''
                   [Exec ''rbd'' ''copyup'' [0, 5], SetAllocHint 4096 4096, Write 0 [1, 2, 3],
                    SetOpFlags2 0] 1 []]
             (clone_write\<lparr>self := (self clone_write)\<lparr>m_read_data := [0, 5]\<rparr>\<rparr>)) \<and>
   send_copyup (clone_write\<lparr>self := (self clone_write)\<lparr>m_read_data := [0, 0]\<rparr>\<rparr>) =
     Some (emit [MdWrite ''rb.0.1.0''
                   [SetAllocHint 4096 4096, Write 0 [1, 2, 3], SetOpFlags2 0] 1 []]
             (clone_write\<lparr>self := (self clone_write)\<lparr>m_read_data := [0, 0]\<rparr>\<rparr>))"
proof -
  let ?a = "clone_write\<lparr>self := (self clone_write)\<lparr>m_read_data := [0, 5]\<rparr>\<rparr>"
  let ?z = "clone_write\<lparr>self := (self clone_write)\<lparr>m_read_data := [0, 0]\<rparr>\<rparr>"
  have "add_write_ops (self ?a) \<noteq> []" by (simp add: clone_write_eq)
  from send_copyup_builds_one_operation [OF this]
  have a: "send_copyup ?a =
     Some (emit [MdWrite ''rb.0.1.0''
                   [Exec ''rbd'' ''copyup'' [0, 5], SetAllocHint 4096 4096, Write 0 [1, 2, 3],
                    SetOpFlags2 0] 1 []] ?a)"
    by (auto simp: clone_write_eq)
  have "add_write_ops (self ?z) \<noteq> []" by (simp add: clone_write_eq)
  from send_copyup_builds_one_operation [OF this]
  have "send_copyup ?z =
     Some (emit [MdWrite ''rb.0.1.0''
                   [SetAllocHint 4096 4096, Write 0 [1, 2, 3], SetOpFlags2 0] 1 []] ?z)"
    by (auto simp: clone_write_eq)
  with a show ?thesis by blast
qed


subsection \<open>AbstractWrite::should_complete in WRITE_GUARD\<close>

lemma cow_write_eq:
  "cow_write =
     \<lparr>ictx = cow_image,
      self = \<lparr>this_addr = 9, m_oid = ''rb.0.1.0'', m_object_no = 0, m_object_off = 0,
              m_object_len = 3, m_snap_id = CEPH_NOSNAP, m_parent_extents = [(0, 4096)],
              m_parent_completion = None, m_hide_enoent = False, m_read_data = [],
              m_state = LIBRBD_AIO_WRITE_FLAT, m_snap_seq = 1, m_snaps = [],
              m_entire_object = None, m_write = [],
              add_write_ops = [SetAllocHint 4096 4096, Write 0 [1, 2, 3], SetOpFlags2 0],
              pre_object_map_update = OBJECT_EXISTS, post_object_map_update = False\<rparr>,
      trace = []\<rparr>"
  by (simp add: cow_write_def AbstractWrite_new_def compute_parent_extents_def
      cow_image_def clone_image_def AioWrite_add_write_ops_def)

text \<open>The state \<open>copied_write\<close> is reached by the code: send, the reply -ENOENT to the guarded
  write, the arrival of the parent's data, and the reply to the parent read.\<close>

lemma copied_write_reached:
  "\<exists>s1 s2. AbstractWrite_send cow_write = Some (0, s1) \<and>
     AbstractWrite_should_complete (- ENOENT) s1 = Some (False, s2) \<and>
     AbstractWrite_should_complete 4 (s2\<lparr>self := (self s2)\<lparr>m_read_data := [9, 9, 9, 9]\<rparr>\<rparr>) =
       Some (False, copied_write)"
  by (simp add: cow_write_eq AbstractWrite_send_def send_pre_def send_write_def guard_write_def
      has_parent_def AbstractWrite_should_complete.simps compute_parent_extents_def
      read_from_parent_def is_copy_on_read_def send_copyup_def append_entire_object_def
      is_zero_def emit_def Let_def cow_image_def clone_image_def ENOENT_def copied_write_def)

text \<open>The discard, sent to the clone while its cell is OBJECT_PENDING, is guarded like the
  write.\<close>

lemma guarded_discard_reached:
  "map_option (self \<circ> snd) (AbstractWrite_send pending_discard) = Some (self guarded_discard) \<and>
   map_option (trace \<circ> snd) (AbstractWrite_send pending_discard) = Some (trace guarded_discard)"
  by (simp add: guarded_discard_def pending_discard_eq clone_image_def AbstractWrite_send_def
      send_pre_def send_write_def guard_write_def has_parent_def emit_def Let_def)

text \<open>C8, as the claim states it, fails, in two ways. The reply to the copyup operation of a
  copy-on-write finds the request in WRITE_GUARD with the parent's data in its read
  buffer; if that reply is -ENOENT and the parent overlap is now zero, send_copyup is
  called with that data, not with empty read data, and the operation issued is the
  copyup exec followed by the write, not the write alone. And on a discard whose
  ObjectMap cell is OBJECT_PENDING, the reply 0 to the operation issued in WRITE_FLAT
  fires nothing: send_post issues the ObjectMap update, and the completion later fires
  with the reply to that update, here -5, not with the operation's result.\<close>

theorem write_guard_stale_read_data_counterexample:
  "m_state (self stale_write) = LIBRBD_AIO_WRITE_GUARD \<and>
   \<not> fst (compute_parent_extents stale_write) \<and>
   m_read_data (self stale_write) \<noteq> [] \<and>
   map_option fst (AbstractWrite_should_complete (- ENOENT) stale_write) = Some False \<and>
   map_option (events_since stale_write \<circ> snd)
       (AbstractWrite_should_complete (- ENOENT) stale_write) =
     Some [MdWrite ''rb.0.1.0''
             [Exec ''rbd'' ''copyup'' [9, 9, 9, 9], SetAllocHint 4096 4096, Write 0 [1, 2, 3],
              SetOpFlags2 0] 1 []] \<and>
   m_state (self guarded_discard) = LIBRBD_AIO_WRITE_GUARD \<and>
   \<not> fst (compute_parent_extents guarded_discard) \<and>
   AbstractWrite_should_complete (- ENOENT) guarded_discard = Some (False, flat_discard) \<and>
   AioRequest_complete AbstractWrite_should_complete 0 flat_discard = Some posting_discard \<and>
   events_since flat_discard posting_discard =
     [ObjectMapUpdate 0 OBJECT_NONEXISTENT (Some OBJECT_PENDING)] \<and>
   map_option (events_since posting_discard)
       (AioRequest_complete AbstractWrite_should_complete (- 5) posting_discard) =
     Some [CompletionFired (- 5), Destroyed]"
  by (simp add: stale_write_def copied_write_def AbstractWrite_should_complete.simps
      compute_parent_extents_def send_copyup_def send_post_def is_zero_def emit_def
      events_since_def Let_def cow_image_def clone_image_def guarded_discard_def
      flat_discard_def posting_discard_def pending_discard_eq AioRequest_complete_def
      delete_this_def AioRequest_dtor_def OBJECT_PENDING_def OBJECT_NONEXISTENT_def ENOENT_def)

text \<open>The reply to the operation issued in WRITE_FLAT, and the reply to the ObjectMap update
  issued by send_post.\<close>

lemma write_flat_no_update:
  assumes "m_state (self v) = LIBRBD_AIO_WRITE_FLAT"
      and "\<not> object_map_enabled (ictx v) \<or> \<not> post_object_map_update (self v) \<or>
           is_lock_owner (ictx v) \<and> object_map (ictx v) (m_object_no (self v)) \<noteq> OBJECT_PENDING"
  shows "\<exists>v'. AbstractWrite_should_complete r v = Some (True, v') \<and> trace v' = trace v \<and>
              ictx v' = ictx v \<and> m_hide_enoent (self v') = m_hide_enoent (self v) \<and>
              m_parent_completion (self v') = m_parent_completion (self v)"
  using assms by (auto simp: AbstractWrite_should_complete.simps [of r v] send_post_def Let_def)

lemma write_flat_update:
  assumes "m_state (self v) = LIBRBD_AIO_WRITE_FLAT"
      and "object_map_enabled (ictx v)" "post_object_map_update (self v)" "is_lock_owner (ictx v)"
      and "object_map (ictx v) (m_object_no (self v)) = OBJECT_PENDING"
      and "object_map_aio_update (ictx v) (m_object_no (self v)) OBJECT_NONEXISTENT
             (Some OBJECT_PENDING)"
  shows "AbstractWrite_should_complete r v =
           Some (False, emit [ObjectMapUpdate (m_object_no (self v)) OBJECT_NONEXISTENT
                                (Some OBJECT_PENDING)]
                          (v\<lparr>self := (self v)\<lparr>m_state := LIBRBD_AIO_WRITE_POST\<rparr>\<rparr>))"
  using assms
  by (auto simp: AbstractWrite_should_complete.simps [of r v] send_post_def Let_def
      OBJECT_PENDING_def OBJECT_NONEXISTENT_def)

lemma write_post_finishes:
  assumes "m_state (self v) = LIBRBD_AIO_WRITE_POST"
  shows "AbstractWrite_should_complete r v = Some (True, v)"
  using assms by (simp add: AbstractWrite_should_complete.simps [of r v])

text \<open>C8, amended. An AbstractWrite in state WRITE_GUARD, whose subclass appends at least one
  step, is completed with -ENOENT and compute_parent_extents returns false. Then the state
  becomes WRITE_FLAT, send_copyup is called with the request's read buffer as it is, and
  should_complete returns not-finished, having issued exactly that one operation; when
  the read buffer is empty or zero, as it is on a write that has not read from the parent,
  the operation is the original write alone. When the reply r' to that operation arrives
  and send_post has no ObjectMap update to make (the ObjectMap is disabled, or the
  subclass asks for no post transition, or the cell is not OBJECT_PENDING), the
  completion fires once with r', or with 0 if hide_enoent is set and r' is -ENOENT, and
  the request is destroyed. When send_post has the update to make, it is issued and
  nothing fires; the completion fires with the reply to that update.\<close>

theorem write_guard_enoent_no_overlap:
  assumes "m_state (self w) = LIBRBD_AIO_WRITE_GUARD"
      and "\<not> fst (compute_parent_extents w)"
      and "add_write_ops (self w) \<noteq> []"
  shows "\<exists>w'. AbstractWrite_should_complete (- ENOENT) w = Some (False, w') \<and>
           m_state (self w') = LIBRBD_AIO_WRITE_FLAT \<and>
           events_since w w' =
             [MdWrite (m_oid (self w))
                ((if is_zero (m_read_data (self w)) then []
                  else [Exec ''rbd'' ''copyup'' (m_read_data (self w))]) @ add_write_ops (self w))
                (m_snap_seq (self w)) (m_snaps (self w))] \<and>
           (is_zero (m_read_data (self w)) \<longrightarrow>
              events_since w w' =
                [MdWrite (m_oid (self w)) (add_write_ops (self w)) (m_snap_seq (self w))
                   (m_snaps (self w))]) \<and>
           is_zero [] \<and>
           (\<forall>ic r'. \<not> object_map_enabled ic \<or> \<not> post_object_map_update (self w) \<or>
                    is_lock_owner ic \<and> object_map ic (m_object_no (self w)) \<noteq> OBJECT_PENDING \<longrightarrow>
              (\<exists>w''. AioRequest_complete AbstractWrite_should_complete r' (w'\<lparr>ictx := ic\<rparr>) =
                       Some w'' \<and>
                     events_since w' w'' =
                       [CompletionFired (if m_hide_enoent (self w) \<and> r' = - ENOENT
                                         then 0 else r')] @
                       (if m_parent_completion (self w) \<noteq> None
                        then [ParentCompletion PC_release] else []) @ [Destroyed])) \<and>
           (\<forall>ic r'. object_map_enabled ic \<and> post_object_map_update (self w) \<and> is_lock_owner ic \<and>
                    object_map ic (m_object_no (self w)) = OBJECT_PENDING \<and>
                    object_map_aio_update ic (m_object_no (self w)) OBJECT_NONEXISTENT
                      (Some OBJECT_PENDING) \<longrightarrow>
              (\<exists>w''. AioRequest_complete AbstractWrite_should_complete r' (w'\<lparr>ictx := ic\<rparr>) =
                       Some w'' \<and>
                     m_state (self w'') = LIBRBD_AIO_WRITE_POST \<and>
                     events_since w' w'' =
                       [ObjectMapUpdate (m_object_no (self w)) OBJECT_NONEXISTENT
                          (Some OBJECT_PENDING)] \<and>
                     (\<forall>ic2 r2. \<exists>w3.
                        AioRequest_complete AbstractWrite_should_complete r2 (w''\<lparr>ictx := ic2\<rparr>) =
                          Some w3 \<and>
                        events_since w'' w3 =
                          [CompletionFired (if m_hide_enoent (self w) \<and> r2 = - ENOENT
                                            then 0 else r2)] @
                          (if m_parent_completion (self w) \<noteq> None
                           then [ParentCompletion PC_release] else []) @ [Destroyed])))"
proof -
  obtain w1 where c: "compute_parent_extents w = (False, w1)"
    using assms(2) by (cases "compute_parent_extents w") auto
  then have w1: "ictx w1 = ictx w" "trace w1 = trace w"
    "\<exists>pe. self w1 = (self w)\<lparr>m_parent_extents := pe\<rparr>"
    by (auto simp: compute_parent_extents_def Let_def split: prod.splits if_splits)
  then obtain pe where pe: "self w1 = (self w)\<lparr>m_parent_extents := pe\<rparr>" by blast
  define op where "op = (if is_zero (m_read_data (self w)) then []
                  else [Exec ''rbd'' ''copyup'' (m_read_data (self w))]) @ add_write_ops (self w)"
  define w' where "w' = emit [MdWrite (m_oid (self w)) op (m_snap_seq (self w)) (m_snaps (self w))]
                          (w1\<lparr>self := (self w1)\<lparr>m_state := LIBRBD_AIO_WRITE_FLAT\<rparr>\<rparr>)"
  have sc: "AbstractWrite_should_complete (- ENOENT) w = Some (False, w')"
    using assms(1,3) c pe
    by (simp add: AbstractWrite_should_complete.simps [of "- ENOENT" w] send_copyup_def Let_def
        w'_def op_def)
  have st: "m_state (self w') = LIBRBD_AIO_WRITE_FLAT"
    by (simp add: w'_def)
  have f: "post_object_map_update (self w') = post_object_map_update (self w)"
    "m_hide_enoent (self w') = m_hide_enoent (self w)"
    "m_parent_completion (self w') = m_parent_completion (self w)"
    "m_object_no (self w') = m_object_no (self w)"
    using pe by (simp_all add: w'_def)
  have ev: "events_since w w' = [MdWrite (m_oid (self w)) op (m_snap_seq (self w)) (m_snaps (self w))]"
    using w1 by (simp add: w'_def events_since_def)
  have em: "is_zero (m_read_data (self w)) \<longrightarrow> op = add_write_ops (self w)"
    by (simp add: op_def)
  have z: "is_zero []" by (simp add: is_zero_def)
  have fin: "\<exists>w''. AioRequest_complete AbstractWrite_should_complete r' (w'\<lparr>ictx := ic\<rparr>) = Some w'' \<and>
                   events_since w' w'' =
                     [CompletionFired (if m_hide_enoent (self w) \<and> r' = - ENOENT then 0 else r')] @
                     (if m_parent_completion (self w) \<noteq> None
                      then [ParentCompletion PC_release] else []) @ [Destroyed]"
    if h: "\<not> object_map_enabled ic \<or> \<not> post_object_map_update (self w) \<or>
           is_lock_owner ic \<and> object_map ic (m_object_no (self w)) \<noteq> OBJECT_PENDING" for ic r'
  proof -
    let ?v = "w'\<lparr>ictx := ic\<rparr>"
    have "m_state (self ?v) = LIBRBD_AIO_WRITE_FLAT" using st by simp
    moreover have "\<not> object_map_enabled (ictx ?v) \<or> \<not> post_object_map_update (self ?v) \<or>
           is_lock_owner (ictx ?v) \<and> object_map (ictx ?v) (m_object_no (self ?v)) \<noteq> OBJECT_PENDING"
      using h f by simp
    ultimately obtain v' where v': "AbstractWrite_should_complete r' ?v = Some (True, v')"
      "trace v' = trace ?v" "m_hide_enoent (self v') = m_hide_enoent (self ?v)"
      "m_parent_completion (self v') = m_parent_completion (self ?v)"
      using write_flat_no_update [of ?v r'] by blast
    then show ?thesis
      using f by (auto simp: AioRequest_complete_def events_since_def)
  qed
  have upd: "\<exists>w''. AioRequest_complete AbstractWrite_should_complete r' (w'\<lparr>ictx := ic\<rparr>) = Some w'' \<and>
               m_state (self w'') = LIBRBD_AIO_WRITE_POST \<and>
               events_since w' w'' =
                 [ObjectMapUpdate (m_object_no (self w)) OBJECT_NONEXISTENT (Some OBJECT_PENDING)] \<and>
               (\<forall>ic2 r2. \<exists>w3.
                  AioRequest_complete AbstractWrite_should_complete r2 (w''\<lparr>ictx := ic2\<rparr>) = Some w3 \<and>
                  events_since w'' w3 =
                    [CompletionFired (if m_hide_enoent (self w) \<and> r2 = - ENOENT then 0 else r2)] @
                    (if m_parent_completion (self w) \<noteq> None
                     then [ParentCompletion PC_release] else []) @ [Destroyed])"
    if h: "object_map_enabled ic \<and> post_object_map_update (self w) \<and> is_lock_owner ic \<and>
           object_map ic (m_object_no (self w)) = OBJECT_PENDING \<and>
           object_map_aio_update ic (m_object_no (self w)) OBJECT_NONEXISTENT
             (Some OBJECT_PENDING)" for ic r'
  proof -
    let ?v = "w'\<lparr>ictx := ic\<rparr>"
    define w'' where "w'' = emit [ObjectMapUpdate (m_object_no (self ?v)) OBJECT_NONEXISTENT
                                    (Some OBJECT_PENDING)]
                              (?v\<lparr>self := (self ?v)\<lparr>m_state := LIBRBD_AIO_WRITE_POST\<rparr>\<rparr>)"
    have "AbstractWrite_should_complete r' ?v = Some (False, w'')"
      unfolding w''_def using st h f by (intro write_flat_update) simp_all
    then have a: "AioRequest_complete AbstractWrite_should_complete r' ?v = Some w''"
      by (simp add: AioRequest_complete_def)
    have b: "m_state (self w'') = LIBRBD_AIO_WRITE_POST"
      "events_since w' w'' =
         [ObjectMapUpdate (m_object_no (self w)) OBJECT_NONEXISTENT (Some OBJECT_PENDING)]"
      "m_hide_enoent (self w'') = m_hide_enoent (self w)"
      "m_parent_completion (self w'') = m_parent_completion (self w)"
      using f by (simp_all add: w''_def events_since_def)
    have "\<exists>w3. AioRequest_complete AbstractWrite_should_complete r2 (w''\<lparr>ictx := ic2\<rparr>) = Some w3 \<and>
               events_since w'' w3 =
                 [CompletionFired (if m_hide_enoent (self w) \<and> r2 = - ENOENT then 0 else r2)] @
                 (if m_parent_completion (self w) \<noteq> None
                  then [ParentCompletion PC_release] else []) @ [Destroyed]" for ic2 r2
      using write_post_finishes [of "w''\<lparr>ictx := ic2\<rparr>" r2] b
      by (auto simp: AioRequest_complete_def events_since_def)
    with a b show ?thesis by blast
  qed
  show ?thesis
    using sc st ev em z fin upd unfolding op_def by auto
qed

theorem write_guard_enoent_no_overlap_witness:
  "\<exists>w'. AbstractWrite_should_complete (- ENOENT)
           (stale_write\<lparr>self := (self stale_write)\<lparr>m_read_data := []\<rparr>\<rparr>) = Some (False, w') \<and>
     m_state (self w') = LIBRBD_AIO_WRITE_FLAT \<and>
     events_since (stale_write\<lparr>self := (self stale_write)\<lparr>m_read_data := []\<rparr>\<rparr>) w' =
       [MdWrite ''rb.0.1.0'' [SetAllocHint 4096 4096, Write 0 [1, 2, 3], SetOpFlags2 0] 1 []] \<and>
     (\<exists>w''. AioRequest_complete AbstractWrite_should_complete 0 w' = Some w'' \<and>
        events_since w' w'' = [CompletionFired 0, ParentCompletion PC_release, Destroyed])"
proof -
  let ?w = "stale_write\<lparr>self := (self stale_write)\<lparr>m_read_data := []\<rparr>\<rparr>"
  have "m_state (self ?w) = LIBRBD_AIO_WRITE_GUARD" "\<not> fst (compute_parent_extents ?w)"
       "add_write_ops (self ?w) \<noteq> []"
    by (simp_all add: stale_write_def copied_write_def compute_parent_extents_def cow_image_def
        clone_image_def)
  from write_guard_enoent_no_overlap [OF this]
  obtain w' where h: "AbstractWrite_should_complete (- ENOENT) ?w = Some (False, w')"
    "m_state (self w') = LIBRBD_AIO_WRITE_FLAT"
    "is_zero (m_read_data (self ?w)) \<longrightarrow>
       events_since ?w w' =
         [MdWrite (m_oid (self ?w)) (add_write_ops (self ?w)) (m_snap_seq (self ?w))
            (m_snaps (self ?w))]"
    "\<forall>ic r'. \<not> object_map_enabled ic \<or> \<not> post_object_map_update (self ?w) \<or>
              is_lock_owner ic \<and> object_map ic (m_object_no (self ?w)) \<noteq> OBJECT_PENDING \<longrightarrow>
        (\<exists>w''. AioRequest_complete AbstractWrite_should_complete r' (w'\<lparr>ictx := ic\<rparr>) = Some w'' \<and>
               events_since w' w'' =
                 [CompletionFired (if m_hide_enoent (self ?w) \<and> r' = - ENOENT then 0 else r')] @
                 (if m_parent_completion (self ?w) \<noteq> None
                  then [ParentCompletion PC_release] else []) @ [Destroyed])"
    by blast
  have "\<not> post_object_map_update (self ?w)" "is_zero (m_read_data (self ?w))"
    by (simp_all add: stale_write_def copied_write_def is_zero_def)
  with h(3) h(4) [rule_format, of "ictx w'" 0]
  have "events_since ?w w' =
       [MdWrite ''rb.0.1.0'' [SetAllocHint 4096 4096, Write 0 [1, 2, 3], SetOpFlags2 0] 1 []]"
    "\<exists>w''. AioRequest_complete AbstractWrite_should_complete 0 w' = Some w'' \<and>
        events_since w' w'' = [CompletionFired 0, ParentCompletion PC_release, Destroyed]"
    by (simp_all add: stale_write_def copied_write_def ENOENT_def)
  with h(1,2) show ?thesis by blast
qed

subsection \<open>The copyup list\<close>

lemma read_copyup_trace:
  "trace (read_copyup w) =
     trace w @
     [CopyupListLock,
      CopyupListFind (m_object_no (self w)) (copyup_list (ictx w) (m_object_no (self w)) \<noteq> None)] @
     (if copyup_list (ictx w) (m_object_no (self w)) = None \<and> fst (compute_parent_extents w)
      then [CopyupListInsert (m_object_no (self w)), CopyupQueueSend (m_object_no (self w))]
      else []) @
     [CopyupListUnlock]"
  by (auto simp: read_copyup_def compute_parent_extents_def Let_def emit_def
      split: option.splits prod.splits bool.splits if_splits)

lemma read_copyup_list:
  "copyup_list (ictx (read_copyup w)) =
     (if copyup_list (ictx w) (m_object_no (self w)) = None \<and> fst (compute_parent_extents w)
      then (copyup_list (ictx w))
             (m_object_no (self w) \<mapsto>
                CopyupRequest_new (m_oid (self w)) (m_object_no (self w))
                  (m_parent_extents (self (snd (compute_parent_extents w)))))
      else copyup_list (ictx w))"
  by (auto simp: read_copyup_def compute_parent_extents_def Let_def emit_def
      split: option.splits prod.splits bool.splits if_splits)

lemma write_copyup_trace:
  "trace (write_copyup w) =
     trace w @
     [CopyupListLock,
      CopyupListFind (m_object_no (self w)) (copyup_list (ictx w) (m_object_no (self w)) \<noteq> None),
      CopyupAppendRequest (m_object_no (self w)) (this_addr (self w))] @
     (if copyup_list (ictx w) (m_object_no (self w)) = None
      then [CopyupListInsert (m_object_no (self w)), CopyupListUnlock,
            CopyupSend (m_object_no (self w))]
      else [CopyupListUnlock])"
  by (auto simp: write_copyup_def Let_def emit_def split: option.splits)

lemma write_copyup_list:
  "copyup_list (ictx (write_copyup w)) =
     (copyup_list (ictx w))
       (m_object_no (self w) \<mapsto>
          append_request (this_addr (self w))
            (case copyup_list (ictx w) (m_object_no (self w)) of
               None \<Rightarrow> CopyupRequest_new (m_oid (self w)) (m_object_no (self w))
                         (m_parent_extents (self w))
             | Some c \<Rightarrow> c))"
  by (auto simp: write_copyup_def Let_def emit_def split: option.splits)

lemma copyup_read_path:
  assumes a: "AioRead.m_state (self rd) = LIBRBD_AIO_READ_COPYUP" "m_tried_parent (self rd)"
  shows "\<exists>rd' es. AioRead_should_complete r rd = Some (True, rd') \<and>
          trace rd' = trace rd @ es \<and>
          es = (if 0 < r
                then [CopyupListLock,
                      CopyupListFind (m_object_no (self rd))
                        (copyup_list (ictx rd) (m_object_no (self rd)) \<noteq> None)] @
                     (if copyup_list (ictx rd) (m_object_no (self rd)) = None \<and>
                         fst (compute_parent_extents rd)
                      then [CopyupListInsert (m_object_no (self rd)),
                            CopyupQueueSend (m_object_no (self rd))]
                      else []) @
                     [CopyupListUnlock]
                else []) \<and>
          copyup_list_atomic Unlocked es \<and>
          length (filter is_copyup_insert es) \<le> 1 \<and>
          (\<forall>n. CopyupListInsert n \<in> set es \<longrightarrow>
                 n = m_object_no (self rd) \<and> copyup_list (ictx rd) n = None) \<and>
          (\<forall>n. copyup_list (ictx rd) n = None \<and> copyup_list (ictx rd') n \<noteq> None \<longrightarrow>
                 CopyupListInsert n \<in> set es) \<and>
          (\<forall>n c. copyup_list (ictx rd) n = Some c \<longrightarrow> copyup_list (ictx rd') n = Some c)"
proof (cases "0 < r")
  case True
  with a have sc: "AioRead_should_complete r rd = Some (True, read_copyup rd)"
    by (simp add: AioRead_should_complete_tried)
  show ?thesis
  proof (cases "copyup_list (ictx rd) (m_object_no (self rd)) = None \<and>
                fst (compute_parent_extents rd)")
    case ins: True
    show ?thesis
      apply (rule exI [of _ "read_copyup rd"])
      apply (rule exI [of _ "[CopyupListLock, CopyupListFind (m_object_no (self rd)) False,
                              CopyupListInsert (m_object_no (self rd)),
                              CopyupQueueSend (m_object_no (self rd)), CopyupListUnlock]"])
      using True ins sc by (auto simp: read_copyup_trace read_copyup_list)
  next
    case no: False
    show ?thesis
      apply (rule exI [of _ "read_copyup rd"])
      apply (rule exI [of _ "[CopyupListLock,
                              CopyupListFind (m_object_no (self rd))
                                (copyup_list (ictx rd) (m_object_no (self rd)) \<noteq> None),
                              CopyupListUnlock]"])
      using True no sc by (auto simp: read_copyup_trace read_copyup_list)
  qed
next
  case False
  with a have "AioRead_should_complete r rd = Some (True, rd)"
    by (simp add: AioRead_should_complete_tried)
  with False show ?thesis by auto
qed

lemma copyup_write_path:
  assumes a: "m_state (self wr) = LIBRBD_AIO_WRITE_GUARD" "fst (compute_parent_extents wr)"
             "is_copy_on_read (ictx wr) CEPH_NOSNAP"
  shows "\<exists>wr' es. AbstractWrite_should_complete (- ENOENT) wr = Some (False, wr') \<and>
          trace wr' = trace wr @ es \<and>
          es = [CopyupListLock,
                CopyupListFind (m_object_no (self wr))
                  (copyup_list (ictx wr) (m_object_no (self wr)) \<noteq> None),
                CopyupAppendRequest (m_object_no (self wr)) (this_addr (self wr))] @
               (if copyup_list (ictx wr) (m_object_no (self wr)) = None
                then [CopyupListInsert (m_object_no (self wr)), CopyupListUnlock,
                      CopyupSend (m_object_no (self wr))]
                else [CopyupListUnlock]) \<and>
          copyup_list_atomic Unlocked es \<and>
          length (filter is_copyup_insert es) \<le> 1 \<and>
          (\<forall>n. CopyupListInsert n \<in> set es \<longrightarrow>
                 n = m_object_no (self wr) \<and> copyup_list (ictx wr) n = None) \<and>
          (\<forall>n. copyup_list (ictx wr) n = None \<and> copyup_list (ictx wr') n \<noteq> None \<longrightarrow>
                 CopyupListInsert n \<in> set es) \<and>
          (\<forall>n c. copyup_list (ictx wr) n = Some c \<longrightarrow>
                   copyup_list (ictx wr') n =
                     Some (if n = m_object_no (self wr)
                           then append_request (this_addr (self wr)) c else c))"
proof -
  obtain w1 where c: "compute_parent_extents wr = (True, w1)"
    using a by (cases "compute_parent_extents wr") auto
  then have w1: "ictx w1 = ictx wr" "trace w1 = trace wr"
    "m_object_no (self w1) = m_object_no (self wr)" "this_addr (self w1) = this_addr (self wr)"
    by (auto simp: compute_parent_extents_def Let_def split: prod.splits if_splits)
  define w2 where "w2 = w1\<lparr>self := (self w1)\<lparr>m_state := LIBRBD_AIO_WRITE_COPYUP\<rparr>\<rparr>"
  have w2: "ictx w2 = ictx wr" "trace w2 = trace wr"
    "m_object_no (self w2) = m_object_no (self wr)" "this_addr (self w2) = this_addr (self wr)"
    using w1 by (simp_all add: w2_def)
  have sc: "AbstractWrite_should_complete (- ENOENT) wr = Some (False, write_copyup w2)"
    using a c w1 by (simp add: AbstractWrite_should_complete.simps [of "- ENOENT" wr] w2_def)
  show ?thesis
  proof (cases "copyup_list (ictx wr) (m_object_no (self wr)) = None")
    case True
    show ?thesis
      apply (rule exI [of _ "write_copyup w2"])
      apply (rule exI [of _ "[CopyupListLock, CopyupListFind (m_object_no (self wr)) False,
                CopyupAppendRequest (m_object_no (self wr)) (this_addr (self wr)),
                CopyupListInsert (m_object_no (self wr)), CopyupListUnlock,
                CopyupSend (m_object_no (self wr))]"])
      using True sc w2 by (auto simp: write_copyup_trace write_copyup_list)
  next
    case False
    show ?thesis
      apply (rule exI [of _ "write_copyup w2"])
      apply (rule exI [of _ "[CopyupListLock, CopyupListFind (m_object_no (self wr)) True,
                CopyupAppendRequest (m_object_no (self wr)) (this_addr (self wr)),
                CopyupListUnlock]"])
      using False sc w2 by (auto simp: write_copyup_trace write_copyup_list)
  qed
qed

text \<open>C2. The two places of this file that touch copyup_list. An AioRead in state READ_COPYUP
  (which has tried the parent, as the code asserts) and an AbstractWrite in state
  WRITE_GUARD that is completed with -ENOENT, still has parent overlap and has
  copy-on-read enabled, each do exactly this, in one critical section of
  copyup_list_lock: take the lock, look the request's object number up, and, only if
  the lookup found no entry (and, for the read, there is still parent overlap), insert
  one new CopyupRequest under that number, before releasing the lock; the write appends
  itself to the waiters of the entry, new or found, in the same critical section, and
  starts a new CopyupRequest after releasing the lock. A read whose parent read
  returned no bytes does not touch the list. So the lookup and the insert are atomic; a
  key gets an entry only by such an insert; and every entry the list had is still
  there, the same request (in the write path with this write appended to its waiters).\<close>

theorem copyup_list_insert_only_when_absent:
  "(AioRead.m_state (self rd) = LIBRBD_AIO_READ_COPYUP \<and> m_tried_parent (self rd) \<longrightarrow>
      (\<exists>rd' es. AioRead_should_complete r rd = Some (True, rd') \<and>
          trace rd' = trace rd @ es \<and>
          es = (if 0 < r
                then [CopyupListLock,
                      CopyupListFind (m_object_no (self rd))
                        (copyup_list (ictx rd) (m_object_no (self rd)) \<noteq> None)] @
                     (if copyup_list (ictx rd) (m_object_no (self rd)) = None \<and>
                         fst (compute_parent_extents rd)
                      then [CopyupListInsert (m_object_no (self rd)),
                            CopyupQueueSend (m_object_no (self rd))]
                      else []) @
                     [CopyupListUnlock]
                else []) \<and>
          copyup_list_atomic Unlocked es \<and>
          length (filter is_copyup_insert es) \<le> 1 \<and>
          (\<forall>n. CopyupListInsert n \<in> set es \<longrightarrow>
                 n = m_object_no (self rd) \<and> copyup_list (ictx rd) n = None) \<and>
          (\<forall>n. copyup_list (ictx rd) n = None \<and> copyup_list (ictx rd') n \<noteq> None \<longrightarrow>
                 CopyupListInsert n \<in> set es) \<and>
          (\<forall>n c. copyup_list (ictx rd) n = Some c \<longrightarrow> copyup_list (ictx rd') n = Some c))) \<and>
   (m_state (self wr) = LIBRBD_AIO_WRITE_GUARD \<and> fst (compute_parent_extents wr) \<and>
    is_copy_on_read (ictx wr) CEPH_NOSNAP \<longrightarrow>
      (\<exists>wr' es. AbstractWrite_should_complete (- ENOENT) wr = Some (False, wr') \<and>
          trace wr' = trace wr @ es \<and>
          es = [CopyupListLock,
                CopyupListFind (m_object_no (self wr))
                  (copyup_list (ictx wr) (m_object_no (self wr)) \<noteq> None),
                CopyupAppendRequest (m_object_no (self wr)) (this_addr (self wr))] @
               (if copyup_list (ictx wr) (m_object_no (self wr)) = None
                then [CopyupListInsert (m_object_no (self wr)), CopyupListUnlock,
                      CopyupSend (m_object_no (self wr))]
                else [CopyupListUnlock]) \<and>
          copyup_list_atomic Unlocked es \<and>
          length (filter is_copyup_insert es) \<le> 1 \<and>
          (\<forall>n. CopyupListInsert n \<in> set es \<longrightarrow>
                 n = m_object_no (self wr) \<and> copyup_list (ictx wr) n = None) \<and>
          (\<forall>n. copyup_list (ictx wr) n = None \<and> copyup_list (ictx wr') n \<noteq> None \<longrightarrow>
                 CopyupListInsert n \<in> set es) \<and>
          (\<forall>n c. copyup_list (ictx wr) n = Some c \<longrightarrow>
                   copyup_list (ictx wr') n =
                     Some (if n = m_object_no (self wr)
                           then append_request (this_addr (self wr)) c else c))))"
proof (intro conjI impI)
  assume "AioRead.m_state (self rd) = LIBRBD_AIO_READ_COPYUP \<and> m_tried_parent (self rd)"
  then have "AioRead.m_state (self rd) = LIBRBD_AIO_READ_COPYUP" "m_tried_parent (self rd)"
    by simp_all
  then show "\<exists>rd' es. AioRead_should_complete r rd = Some (True, rd') \<and>
          trace rd' = trace rd @ es \<and>
          es = (if 0 < r
                then [CopyupListLock,
                      CopyupListFind (m_object_no (self rd))
                        (copyup_list (ictx rd) (m_object_no (self rd)) \<noteq> None)] @
                     (if copyup_list (ictx rd) (m_object_no (self rd)) = None \<and>
                         fst (compute_parent_extents rd)
                      then [CopyupListInsert (m_object_no (self rd)),
                            CopyupQueueSend (m_object_no (self rd))]
                      else []) @
                     [CopyupListUnlock]
                else []) \<and>
          copyup_list_atomic Unlocked es \<and>
          length (filter is_copyup_insert es) \<le> 1 \<and>
          (\<forall>n. CopyupListInsert n \<in> set es \<longrightarrow>
                 n = m_object_no (self rd) \<and> copyup_list (ictx rd) n = None) \<and>
          (\<forall>n. copyup_list (ictx rd) n = None \<and> copyup_list (ictx rd') n \<noteq> None \<longrightarrow>
                 CopyupListInsert n \<in> set es) \<and>
          (\<forall>n c. copyup_list (ictx rd) n = Some c \<longrightarrow> copyup_list (ictx rd') n = Some c)"
    by (rule copyup_read_path)
next
  assume "m_state (self wr) = LIBRBD_AIO_WRITE_GUARD \<and> fst (compute_parent_extents wr) \<and>
          is_copy_on_read (ictx wr) CEPH_NOSNAP"
  then have "m_state (self wr) = LIBRBD_AIO_WRITE_GUARD" "fst (compute_parent_extents wr)"
            "is_copy_on_read (ictx wr) CEPH_NOSNAP"
    by simp_all
  then show "\<exists>wr' es. AbstractWrite_should_complete (- ENOENT) wr = Some (False, wr') \<and>
          trace wr' = trace wr @ es \<and>
          es = [CopyupListLock,
                CopyupListFind (m_object_no (self wr))
                  (copyup_list (ictx wr) (m_object_no (self wr)) \<noteq> None),
                CopyupAppendRequest (m_object_no (self wr)) (this_addr (self wr))] @
               (if copyup_list (ictx wr) (m_object_no (self wr)) = None
                then [CopyupListInsert (m_object_no (self wr)), CopyupListUnlock,
                      CopyupSend (m_object_no (self wr))]
                else [CopyupListUnlock]) \<and>
          copyup_list_atomic Unlocked es \<and>
          length (filter is_copyup_insert es) \<le> 1 \<and>
          (\<forall>n. CopyupListInsert n \<in> set es \<longrightarrow>
                 n = m_object_no (self wr) \<and> copyup_list (ictx wr) n = None) \<and>
          (\<forall>n. copyup_list (ictx wr) n = None \<and> copyup_list (ictx wr') n \<noteq> None \<longrightarrow>
                 CopyupListInsert n \<in> set es) \<and>
          (\<forall>n c. copyup_list (ictx wr) n = Some c \<longrightarrow>
                   copyup_list (ictx wr') n =
                     Some (if n = m_object_no (self wr)
                           then append_request (this_addr (self wr)) c else c))"
    by (rule copyup_write_path)
qed

lemma served_read_reached:
  "AioRead_should_complete (- ENOENT) clone_read = Some (False, served_read)"
  by (simp add: served_read_def clone_read_eq clone_image_def AioRead_should_complete.simps
      read_from_parent_def read_guard_overlap_def is_copy_on_read_def emit_def events_since_def
      Let_def)

theorem copyup_list_insert_only_when_absent_witness:
  "\<exists>rd' wr'.
     AioRead_should_complete 4096 served_read = Some (True, rd') \<and>
     events_since served_read rd' =
       [CopyupListLock, CopyupListFind 0 False, CopyupListInsert 0, CopyupQueueSend 0,
        CopyupListUnlock] \<and>
     copyup_list (ictx rd') 0 \<noteq> None \<and>
     AbstractWrite_should_complete (- ENOENT) guarded_write = Some (False, wr') \<and>
     events_since guarded_write wr' =
       [CopyupListLock, CopyupListFind 0 False, CopyupAppendRequest 0 9, CopyupListInsert 0,
        CopyupListUnlock, CopyupSend 0] \<and>
     copyup_list (ictx wr') 0 \<noteq> None"
proof -
  note T = copyup_list_insert_only_when_absent
             [where rd = served_read and wr = guarded_write and r = 4096]
  have rd: "AioRead.m_state (self served_read) = LIBRBD_AIO_READ_COPYUP \<and>
            m_tried_parent (self served_read)"
    by (simp add: served_read_def)
  have wr: "m_state (self guarded_write) = LIBRBD_AIO_WRITE_GUARD \<and>
            fst (compute_parent_extents guarded_write) \<and>
            is_copy_on_read (ictx guarded_write) CEPH_NOSNAP"
    by (simp add: guarded_write_def clone_write_eq clone_image_def compute_parent_extents_def
        is_copy_on_read_def)
  have f: "copyup_list (ictx served_read) (m_object_no (self served_read)) = None"
    "fst (compute_parent_extents served_read)" "m_object_no (self served_read) = 0"
    "copyup_list (ictx guarded_write) (m_object_no (self guarded_write)) = None"
    "m_object_no (self guarded_write) = 0" "this_addr (self guarded_write) = 9"
    by (simp_all add: served_read_def guarded_write_def clone_read_eq clone_write_eq
        clone_image_def compute_parent_extents_def)
  from T [THEN conjunct1, THEN mp, OF rd]
  obtain rd' es where
    r1: "AioRead_should_complete 4096 served_read = Some (True, rd')"
    and r2: "trace rd' = trace served_read @ es"
    and r3: "es = (if (0::int) < 4096
                then [CopyupListLock,
                      CopyupListFind (m_object_no (self served_read))
                        (copyup_list (ictx served_read) (m_object_no (self served_read)) \<noteq> None)] @
                     (if copyup_list (ictx served_read) (m_object_no (self served_read)) = None \<and>
                         fst (compute_parent_extents served_read)
                      then [CopyupListInsert (m_object_no (self served_read)),
                            CopyupQueueSend (m_object_no (self served_read))]
                      else []) @
                     [CopyupListUnlock]
                else [])"
    and r4: "\<forall>n. copyup_list (ictx served_read) n = None \<and> copyup_list (ictx rd') n \<noteq> None \<longrightarrow>
                 CopyupListInsert n \<in> set es"
    by (elim exE conjE) (rule that)
  from T [THEN conjunct2, THEN mp, OF wr]
  obtain wr' es' where
    w1: "AbstractWrite_should_complete (- ENOENT) guarded_write = Some (False, wr')"
    and w2: "trace wr' = trace guarded_write @ es'"
    and w3: "es' = [CopyupListLock,
                CopyupListFind (m_object_no (self guarded_write))
                  (copyup_list (ictx guarded_write) (m_object_no (self guarded_write)) \<noteq> None),
                CopyupAppendRequest (m_object_no (self guarded_write))
                  (this_addr (self guarded_write))] @
               (if copyup_list (ictx guarded_write) (m_object_no (self guarded_write)) = None
                then [CopyupListInsert (m_object_no (self guarded_write)), CopyupListUnlock,
                      CopyupSend (m_object_no (self guarded_write))]
                else [CopyupListUnlock])"
    and w4: "\<forall>n c. copyup_list (ictx guarded_write) n = Some c \<longrightarrow>
                   copyup_list (ictx wr') n =
                     Some (if n = m_object_no (self guarded_write)
                           then append_request (this_addr (self guarded_write)) c else c)"
    by (elim exE conjE) (rule that)
  have e1: "events_since served_read rd' =
       [CopyupListLock, CopyupListFind 0 False, CopyupListInsert 0, CopyupQueueSend 0,
        CopyupListUnlock]"
    using r2 f unfolding r3 by (simp add: events_since_def)
  have e2: "events_since guarded_write wr' =
       [CopyupListLock, CopyupListFind 0 False, CopyupAppendRequest 0 9, CopyupListInsert 0,
        CopyupListUnlock, CopyupSend 0]"
    using w2 f unfolding w3 by (simp add: events_since_def)
  have "AioRead_should_complete 4096 served_read = Some (True, read_copyup served_read)"
    using rd by (simp add: AioRead_should_complete_tried)
  with r1 have "rd' = read_copyup served_read" by simp
  then have r0: "copyup_list (ictx rd') 0 \<noteq> None"
    using f by (simp add: read_copyup_list)
  have "map_option (copyup_list \<circ> ictx \<circ> snd)
          (AbstractWrite_should_complete (- ENOENT) guarded_write) =
        Some ((\<lambda>x. None)(0 \<mapsto> append_request 9 (CopyupRequest_new ''rb.0.1.0'' 0 [(0, 4096)])))"
    by (simp add: guarded_write_def clone_write_eq clone_image_def
        AbstractWrite_should_complete.simps compute_parent_extents_def is_copy_on_read_def
        write_copyup_def emit_def Let_def)
  with w1 have w0: "copyup_list (ictx wr') 0 \<noteq> None"
    by simp
  from r1 w1 e1 e2 r0 w0 show ?thesis by blast
qed

end
